theory Spec2Isabelle
  imports Complex_Main "HOL-Library.Log_Nat"
begin

section \<open>Platform constants\<close>

text \<open>
  The thermostat of \<^verbatim>\<open>custom_components/dualmode_generic/climate.py\<close> compares
  plain Python strings. The constants it imports from the platform are written here with
  the values the platform gives them; the constants the module defines itself
  (\<^verbatim>\<open>FAN_MODE_*\<close>, \<^verbatim>\<open>DRYER_MODE_*\<close>, \<^verbatim>\<open>REVERSE_CYCLE_IS_*\<close>) have the
  values of the source.
\<close>

type_synonym entity_id = string

abbreviation (input) HVAC_MODE_OFF :: string where "HVAC_MODE_OFF \<equiv> ''off''"
abbreviation (input) HVAC_MODE_HEAT :: string where "HVAC_MODE_HEAT \<equiv> ''heat''"
abbreviation (input) HVAC_MODE_COOL :: string where "HVAC_MODE_COOL \<equiv> ''cool''"
abbreviation (input) HVAC_MODE_FAN_ONLY :: string where "HVAC_MODE_FAN_ONLY \<equiv> ''fan_only''"
abbreviation (input) HVAC_MODE_DRY :: string where "HVAC_MODE_DRY \<equiv> ''dry''"

abbreviation (input) PRESET_AWAY :: string where "PRESET_AWAY \<equiv> ''away''"
abbreviation (input) PRESET_NONE :: string where "PRESET_NONE \<equiv> ''none''"

abbreviation (input) STATE_ON :: string where "STATE_ON \<equiv> ''on''"
abbreviation (input) STATE_UNKNOWN :: string where "STATE_UNKNOWN \<equiv> ''unknown''"
abbreviation (input) STATE_UNAVAILABLE :: string where "STATE_UNAVAILABLE \<equiv> ''unavailable''"

abbreviation (input) SERVICE_TURN_ON :: string where "SERVICE_TURN_ON \<equiv> ''turn_on''"
abbreviation (input) SERVICE_TURN_OFF :: string where "SERVICE_TURN_OFF \<equiv> ''turn_off''"

abbreviation (input) FAN_MODE_COOL :: string where "FAN_MODE_COOL \<equiv> ''cooler''"
abbreviation (input) FAN_MODE_HEAT :: string where "FAN_MODE_HEAT \<equiv> ''heater''"
abbreviation (input) FAN_MODE_NEUTRAL :: string where "FAN_MODE_NEUTRAL \<equiv> ''neutral''"

abbreviation (input) FAN_MODE_ON :: string where "FAN_MODE_ON \<equiv> ''on''"
abbreviation (input) FAN_MODE_AUTO :: string where "FAN_MODE_AUTO \<equiv> ''auto''"

abbreviation (input) DRYER_MODE_COOL :: string where "DRYER_MODE_COOL \<equiv> ''cooler''"
abbreviation (input) DRYER_MODE_HEAT :: string where "DRYER_MODE_HEAT \<equiv> ''heater''"
abbreviation (input) DRYER_MODE_NEUTRAL :: string where "DRYER_MODE_NEUTRAL \<equiv> ''neutral''"

section \<open>Python floats\<close>

text \<open>
  A Python float is an IEEE 754 double: a finite value (a rational; the two zeros are not
  told apart, no operation below can tell them apart), an infinity, or not-a-number.
\<close>

datatype pyfloat = Finite rat | PosInf | NegInf | NaN

definition pow2 :: "int \<Rightarrow> rat" where
  "pow2 k = (if 0 \<le> k then of_int (2 ^ nat k) else 1 / of_int (2 ^ nat (- k)))"

text \<open>The binary exponent of a rational other than zero: \<open>2 ^ e \<le> \<bar>q\<bar> < 2 ^ (e + 1)\<close>.\<close>

definition exponent :: "rat \<Rightarrow> int" where
  "exponent q =
     (if 1 \<le> \<bar>q\<bar> then bitlen \<lfloor>\<bar>q\<bar>\<rfloor> - 1
      else - bitlen (\<lceil>1 / \<bar>q\<bar>\<rceil> - 1))"

definition round_half_even :: "rat \<Rightarrow> int" where
  "round_half_even x =
     (let f = \<lfloor>x\<rfloor>; d = x - of_int f
      in if d < 1 / 2 then f
         else if 1 / 2 < d then f + 1
         else if even f then f else f + 1)"

text \<open>
  Rounding to the nearest double, ties to even: 53 significant bits, the spacing of the
  subnormal numbers below \<open>2 ^ - 1022\<close>, and an infinity once the rounded value reaches
  \<open>2 ^ 1024\<close>, that is, once its exponent is 1024 or more.
\<close>

definition to_double :: "rat \<Rightarrow> pyfloat" where
  "to_double q =
     (if q = 0 then Finite 0
      else
        (let e = max (exponent q) (- 1022);
             ulp = pow2 (e - 52);
             r = of_int (round_half_even (q / ulp)) * ulp
         in if 1024 \<le> exponent r then (if 0 < q then PosInf else NegInf)
            else Finite r))"

text \<open>
  The float that Python reads from a decimal literal with one decimal place:
  \<open>tenths 206\<close> is \<^verbatim>\<open>20.6\<close>, the double nearest to 206 tenths.
\<close>

definition tenths :: "int \<Rightarrow> pyfloat" where
  "tenths m = to_double (of_int m / 10)"

text \<open>\<^verbatim>\<open>x + y\<close> on floats: the exact sum, rounded.\<close>

fun fadd :: "pyfloat \<Rightarrow> pyfloat \<Rightarrow> pyfloat" where
  "fadd (Finite a) (Finite b) = to_double (a + b)"
| "fadd NaN _ = NaN"
| "fadd _ NaN = NaN"
| "fadd PosInf NegInf = NaN"
| "fadd NegInf PosInf = NaN"
| "fadd PosInf _ = PosInf"
| "fadd _ PosInf = PosInf"
| "fadd NegInf _ = NegInf"
| "fadd _ NegInf = NegInf"

text \<open>\<^verbatim>\<open>x >= y\<close> on floats: false whenever either side is not-a-number.\<close>

fun fge :: "pyfloat \<Rightarrow> pyfloat \<Rightarrow> bool" where
  "fge (Finite a) (Finite b) = (b \<le> a)"
| "fge NaN _ = False"
| "fge _ NaN = False"
| "fge PosInf _ = True"
| "fge _ NegInf = True"
| "fge _ PosInf = False"
| "fge NegInf _ = False"

declare fadd.simps [simp del] fge.simps [simp del]

section \<open>Data model\<close>

text \<open>
  An entry of the \<^verbatim>\<open>reverse_cycle\<close> option: a name, or a boolean of the legacy
  configuration format.
\<close>

datatype rc_item = RStr string | RBool bool

abbreviation (input) REVERSE_CYCLE_IS_HEATER :: rc_item where "REVERSE_CYCLE_IS_HEATER \<equiv> RStr ''heater''"
abbreviation (input) REVERSE_CYCLE_IS_COOLER :: rc_item where "REVERSE_CYCLE_IS_COOLER \<equiv> RStr ''cooler''"
abbreviation (input) REVERSE_CYCLE_IS_FAN :: rc_item where "REVERSE_CYCLE_IS_FAN \<equiv> RStr ''fan''"
abbreviation (input) REVERSE_CYCLE_IS_DRYER :: rc_item where "REVERSE_CYCLE_IS_DRYER \<equiv> RStr ''dryer''"

text \<open>The exceptions the modelled code can raise.\<close>

datatype py_error = ValueError | TypeError | UnboundLocalError

text \<open>
  The arguments of the constructor, named after the configuration keys
  (\<^verbatim>\<open>CONF_HEATER\<close>, ...). An option that is absent is \<open>None\<close>. Durations are
  counted in seconds; temperatures are Python floats.
\<close>

record config =
  conf_heater :: "entity_id option"
  conf_cooler :: "entity_id option"
  conf_fan :: "entity_id option"
  conf_fan_behavior :: string
  conf_dryer :: "entity_id option"
  conf_dryer_behavior :: string
  conf_reverse_cycle :: "rc_item list"
  conf_min_temp :: "pyfloat option"
  conf_max_temp :: "pyfloat option"
  conf_target_temp :: "pyfloat option"
  conf_min_dur :: "nat option"
  conf_cold_tolerance :: pyfloat
  conf_hot_tolerance :: pyfloat
  conf_initial_hvac_mode :: "string option"
  conf_away_temp :: "pyfloat option"
  conf_fan_mode :: string

text \<open>
  The attributes of a \<^verbatim>\<open>DualModeGenericThermostat\<close> object, without the leading
  underscore of the private ones. \<open>raw_min_temp\<close> and \<open>raw_max_temp\<close> are
  \<^verbatim>\<open>self._min_temp\<close> and \<^verbatim>\<open>self._max_temp\<close>; the properties
  \<^verbatim>\<open>min_temp\<close> and \<^verbatim>\<open>max_temp\<close> are functions below.
\<close>

record thermostat =
  heater_entity_id :: "entity_id option"
  cooler_entity_id :: "entity_id option"
  fan_entity_id :: "entity_id option"
  fan_behavior :: string
  dryer_entity_id :: "entity_id option"
  dryer_behavior :: string
  fan_mode :: string
  reverse_cycle :: "rc_item list"
  min_cycle_duration :: "nat option"
  cold_tolerance :: pyfloat
  hot_tolerance :: pyfloat
  hvac_mode :: "string option"
  saved_target_temp :: "pyfloat option"
  hvac_list :: "string list"
  active :: bool
  cur_temp :: "pyfloat option"
  raw_min_temp :: "pyfloat option"
  raw_max_temp :: "pyfloat option"
  target_temp :: "pyfloat option"
  away_temp :: "pyfloat option"
  is_away :: bool

text \<open>
  A state object of the platform: the state string, the two attributes the thermostat
  reads back at start-up, and the time since \<^verbatim>\<open>last_changed\<close>.
\<close>

record ha_state =
  state :: string
  attr_temperature :: "pyfloat option"
  attr_preset_mode :: "string option"
  since_changed :: nat

text \<open>\<^verbatim>\<open>hass.states.get\<close>: the state machine of the platform, read by entity id.\<close>

type_synonym hass = "entity_id \<Rightarrow> ha_state option"

text \<open>
  What an operation does to the outside: a service call
  \<^verbatim>\<open>hass.services.async_call(HA_DOMAIN, service, {ATTR_ENTITY_ID: entity})\<close>, or
  a coroutine handed to \<^verbatim>\<open>asyncio.ensure_future\<close> (it sleeps five seconds and then
  looks at the devices again).
\<close>

datatype fan_task = fan_on | fan_off

datatype event = Call string entity_id | EnsureFuture fan_task

text \<open>
  The result of a method: the object as the method leaves it, the events in the order
  they were issued, and the exception that ended the method, if any. An exception does
  not undo the assignments made before it.
\<close>

record outcome =
  self_after :: thermostat
  events :: "event list"
  raised :: "py_error option"

definition returns :: "thermostat \<Rightarrow> event list \<Rightarrow> outcome" where
  "returns self evs = \<lparr>self_after = self, events = evs, raised = None\<rparr>"

definition raises :: "thermostat \<Rightarrow> event list \<Rightarrow> py_error \<Rightarrow> outcome" where
  "raises self evs e = \<lparr>self_after = self, events = evs, raised = Some e\<rparr>"

section \<open>Actuator commands\<close>

definition async_fan_turn_on :: "thermostat \<Rightarrow> event list" where
  "async_fan_turn_on self =
     (case fan_entity_id self of None \<Rightarrow> [] | Some e \<Rightarrow> [Call SERVICE_TURN_ON e])"

definition async_fan_turn_off :: "thermostat \<Rightarrow> event list" where
  "async_fan_turn_off self =
     (case fan_entity_id self of None \<Rightarrow> [] | Some e \<Rightarrow> [Call SERVICE_TURN_OFF e])"

definition async_dryer_turn_on :: "thermostat \<Rightarrow> event list" where
  "async_dryer_turn_on self =
     (case dryer_entity_id self of None \<Rightarrow> [] | Some e \<Rightarrow> [Call SERVICE_TURN_ON e])"

definition async_dryer_turn_off :: "thermostat \<Rightarrow> event list" where
  "async_dryer_turn_off self =
     (case dryer_entity_id self of None \<Rightarrow> [] | Some e \<Rightarrow> [Call SERVICE_TURN_OFF e])"

definition async_heater_turn_on :: "thermostat \<Rightarrow> event list" where
  "async_heater_turn_on self =
     (case heater_entity_id self of
        None \<Rightarrow> []
      | Some e \<Rightarrow> [Call SERVICE_TURN_ON e, EnsureFuture fan_on])"

definition async_heater_turn_off :: "thermostat \<Rightarrow> event list" where
  "async_heater_turn_off self =
     (case heater_entity_id self of None \<Rightarrow> [] | Some e \<Rightarrow> [Call SERVICE_TURN_OFF e])
     @ (if fan_mode self = FAN_MODE_AUTO then [EnsureFuture fan_off] else [])"

definition async_cooler_turn_on :: "thermostat \<Rightarrow> event list" where
  "async_cooler_turn_on self =
     (case cooler_entity_id self of
        None \<Rightarrow> []
      | Some e \<Rightarrow> async_fan_turn_on self @ [Call SERVICE_TURN_ON e])"

definition async_cooler_turn_off :: "thermostat \<Rightarrow> event list" where
  "async_cooler_turn_off self =
     (if fan_mode self = FAN_MODE_AUTO then async_fan_turn_off self else [])
     @ (case cooler_entity_id self of None \<Rightarrow> [] | Some e \<Rightarrow> [Call SERVICE_TURN_OFF e])"

section \<open>Reading the devices\<close>

definition is_state :: "hass \<Rightarrow> entity_id \<Rightarrow> string \<Rightarrow> bool" where
  "is_state h dev st = (case h dev of None \<Rightarrow> False | Some es \<Rightarrow> state es = st)"

text \<open>\<^verbatim>\<open>[e] if e else []\<close>: an id that is \<^verbatim>\<open>None\<close> or empty is left out.\<close>

definition if_set :: "entity_id option \<Rightarrow> entity_id list" where
  "if_set e = (case e of None \<Rightarrow> [] | Some i \<Rightarrow> if i = [] then [] else [i])"

text \<open>
  The property \<^verbatim>\<open>_is_device_active\<close>: the first true state among cooler, heater and
  dryer, \<^verbatim>\<open>False\<close> when there is none. The fan is not in the list.
\<close>

definition is_device_active :: "hass \<Rightarrow> thermostat \<Rightarrow> bool" where
  "is_device_active h self =
     (let devices = [] @ if_set (cooler_entity_id self) @ if_set (heater_entity_id self)
                       @ if_set (dryer_entity_id self);
          device_states = map (\<lambda>dev. is_state h dev STATE_ON) devices
      in case filter (\<lambda>st. st) device_states of [] \<Rightarrow> False | st # _ \<Rightarrow> st)"

text \<open>
  Modelled from the spec: the platform helper \<^verbatim>\<open>condition.state(hass, entity,
  req_state, for_period)\<close> is not part of the repository. Following section 4.1, step 3 and
  section 6 (\<^verbatim>\<open>duration_in_current_state\<close>), it holds when the entity is known, is in
  the requested state, and the time it has spent there is not shorter than the period.
\<close>

definition condition_state :: "hass \<Rightarrow> entity_id option \<Rightarrow> string \<Rightarrow> nat \<Rightarrow> bool" where
  "condition_state h entity req_state for_period =
     (case entity of
        None \<Rightarrow> False
      | Some e \<Rightarrow>
          (case h e of
             None \<Rightarrow> False
           | Some es \<Rightarrow> state es = req_state \<and> for_period \<le> since_changed es))"

text \<open>
  The coroutines \<^verbatim>\<open>fan_on\<close> and \<^verbatim>\<open>fan_off\<close>, run on the snapshot of the platform
  that they find after their five seconds of sleep.
\<close>

definition run_fan_task :: "hass \<Rightarrow> thermostat \<Rightarrow> fan_task \<Rightarrow> event list" where
  "run_fan_task h self task =
     (case task of
        fan_on \<Rightarrow> if is_device_active h self then async_fan_turn_on self else []
      | fan_off \<Rightarrow>
          if \<not> is_device_active h self \<and> fan_mode self = FAN_MODE_AUTO
          then async_fan_turn_off self else [])"

section \<open>The control loop\<close>

text \<open>
  Lines 600 to 626 of \<^verbatim>\<open>_async_control_heating\<close>: the minimum cycle duration.
  The result is whether the evaluation goes on, together with the local variable
  \<^verbatim>\<open>active_entity\<close>: \<open>None\<close> while it is unassigned, \<open>Some v\<close> once it holds
  the value \<open>v\<close> (an entity id or Python's \<^verbatim>\<open>None\<close>). Reading it while it is
  unassigned raises \<^verbatim>\<open>UnboundLocalError\<close>.
\<close>

definition min_cycle_gate ::
  "hass \<Rightarrow> nat option \<Rightarrow> bool \<Rightarrow> thermostat \<Rightarrow> py_error + (bool \<times> entity_id option option)" where
  "min_cycle_gate h time force self =
     (if \<not> force \<and> time = None then
        (case min_cycle_duration self of
           None \<Rightarrow> Inr (True, None)
         | Some d \<Rightarrow>
             if d = 0 then Inr (True, None)
             else
               (let a0 = None;
                    a1 = (if hvac_mode self = Some HVAC_MODE_COOL
                          then Some (cooler_entity_id self) else a0);
                    a2 = (if hvac_mode self = Some HVAC_MODE_HEAT
                          then Some (heater_entity_id self) else a1);
                    a3 = (if hvac_mode self = Some HVAC_MODE_FAN_ONLY
                          then Some (fan_entity_id self) else a2);
                    a4 = (if hvac_mode self = Some HVAC_MODE_DRY
                          then Some (dryer_entity_id self) else a3);
                    current_state = (if is_device_active h self then STATE_ON else HVAC_MODE_OFF)
                in case a4 of
                     None \<Rightarrow> Inl UnboundLocalError
                   | Some active_entity \<Rightarrow>
                       (let long_enough = condition_state h active_entity current_state d
                        in if \<not> long_enough then Inr (False, a4) else Inr (True, a4))))
      else Inr (True, None))"

text \<open>
  Lines 630 to 697: the decision, given \<^verbatim>\<open>too_cold\<close> and \<^verbatim>\<open>too_hot\<close>. The
  keep-alive branches log \<^verbatim>\<open>active_entity\<close> before they issue anything.
\<close>

definition keep_alive_turn_on :: "thermostat \<Rightarrow> event list" where
  "keep_alive_turn_on self =
     (if hvac_mode self = Some HVAC_MODE_COOL then async_cooler_turn_on self
      else if hvac_mode self = Some HVAC_MODE_HEAT then async_heater_turn_on self
      else if hvac_mode self = Some HVAC_MODE_FAN_ONLY then async_fan_turn_on self
      else if hvac_mode self = Some HVAC_MODE_DRY then async_dryer_turn_on self
      else [])"

definition keep_alive_turn_off :: "thermostat \<Rightarrow> event list" where
  "keep_alive_turn_off self =
     (if hvac_mode self = Some HVAC_MODE_COOL then async_cooler_turn_off self
      else if hvac_mode self = Some HVAC_MODE_HEAT then async_heater_turn_off self
      else if hvac_mode self = Some HVAC_MODE_FAN_ONLY then async_fan_turn_off self
      else if hvac_mode self = Some HVAC_MODE_DRY then async_dryer_turn_off self
      else [])"

definition decide ::
  "hass \<Rightarrow> nat option \<Rightarrow> entity_id option option \<Rightarrow> thermostat \<Rightarrow> bool \<Rightarrow> bool
     \<Rightarrow> py_error + event list" where
  "decide h time active_entity self too_cold too_hot =
     (if is_device_active h self then
        (if too_cold \<and> hvac_mode self = Some HVAC_MODE_COOL then Inr (async_cooler_turn_off self)
         else if too_hot \<and> hvac_mode self = Some HVAC_MODE_HEAT then Inr (async_heater_turn_off self)
         else if hvac_mode self = Some HVAC_MODE_FAN_ONLY then
           (if too_cold \<and> fan_behavior self = FAN_MODE_COOL then Inr (async_fan_turn_off self)
            else if too_hot \<and> fan_behavior self = FAN_MODE_HEAT then Inr (async_fan_turn_off self)
            else Inr [])
         else if hvac_mode self = Some HVAC_MODE_DRY then
           (if too_cold \<and> dryer_behavior self = DRYER_MODE_COOL then Inr (async_dryer_turn_off self)
            else if too_hot \<and> dryer_behavior self = DRYER_MODE_HEAT then Inr (async_dryer_turn_off self)
            else Inr [])
         else if time \<noteq> None then
           (case active_entity of
              None \<Rightarrow> Inl UnboundLocalError
            | Some _ \<Rightarrow> Inr (keep_alive_turn_on self))
         else Inr [])
      else
        (if too_hot \<and> hvac_mode self = Some HVAC_MODE_COOL then Inr (async_cooler_turn_on self)
         else if too_cold \<and> hvac_mode self = Some HVAC_MODE_HEAT then Inr (async_heater_turn_on self)
         else if hvac_mode self = Some HVAC_MODE_FAN_ONLY then
           (if too_hot \<and> fan_behavior self = FAN_MODE_COOL then Inr (async_fan_turn_on self)
            else if too_cold \<and> fan_behavior self = FAN_MODE_HEAT then Inr (async_fan_turn_on self)
            else Inr [])
         else if hvac_mode self = Some HVAC_MODE_DRY then
           (if too_hot \<and> dryer_behavior self = DRYER_MODE_COOL then Inr (async_dryer_turn_on self)
            else if too_cold \<and> dryer_behavior self = DRYER_MODE_HEAT then Inr (async_dryer_turn_on self)
            else Inr [])
         else if time \<noteq> None then
           (case active_entity of
              None \<Rightarrow> Inl UnboundLocalError
            | Some _ \<Rightarrow> Inr (keep_alive_turn_off self))
         else Inr []))"

text \<open>Lines 699 to 702: a neutral fan or dryer follows the mode alone.\<close>

definition neutral_devices :: "thermostat \<Rightarrow> event list" where
  "neutral_devices self =
     (if fan_behavior self = FAN_MODE_NEUTRAL \<and> hvac_mode self = Some HVAC_MODE_FAN_ONLY
      then async_fan_turn_on self else [])
     @ (if dryer_behavior self = DRYER_MODE_NEUTRAL \<and> hvac_mode self = Some HVAC_MODE_DRY
        then async_dryer_turn_on self else [])"

text \<open>
  Lines 628 to 702, in Python's float arithmetic. Comparing or adding \<^verbatim>\<open>None\<close>
  raises \<^verbatim>\<open>TypeError\<close>.
\<close>

definition hysteresis ::
  "hass \<Rightarrow> nat option \<Rightarrow> entity_id option option \<Rightarrow> thermostat \<Rightarrow> outcome" where
  "hysteresis h time active_entity self =
     (case target_temp self of
        None \<Rightarrow> raises self [] TypeError
      | Some t \<Rightarrow>
          (case cur_temp self of
             None \<Rightarrow> raises self [] TypeError
           | Some c \<Rightarrow>
               (let too_cold = fge t (fadd c (cold_tolerance self));
                    too_hot = fge c (fadd t (hot_tolerance self))
                in case decide h time active_entity self too_cold too_hot of
                     Inl e \<Rightarrow> raises self [] e
                   | Inr evs \<Rightarrow> returns self (evs @ neutral_devices self))))"

text \<open>
  Lines 588 to 595: the thermostat becomes active once both temperatures are known
  (\<^verbatim>\<open>None not in (self._cur_temp, self._target_temp)\<close>).
\<close>

definition activate :: "thermostat \<Rightarrow> thermostat" where
  "activate self =
     (if \<not> active self \<and> cur_temp self \<noteq> None \<and> target_temp self \<noteq> None
      then self\<lparr>active := True\<rparr> else self)"

text \<open>
  \<^verbatim>\<open>_async_control_heating(time, force)\<close>. The platform state is read as one
  snapshot: the service calls are not awaited to completion, so nothing the evaluation
  issues is visible to it.
\<close>

definition async_control_heating ::
  "hass \<Rightarrow> nat option \<Rightarrow> bool \<Rightarrow> thermostat \<Rightarrow> outcome" where
  "async_control_heating h time force self0 =
     (let self = activate self0
      in if \<not> active self then returns self []
         else if hvac_mode self = Some HVAC_MODE_OFF then returns self []
         else
           (case min_cycle_gate h time force self of
              Inl e \<Rightarrow> raises self [] e
            | Inr (go_on, active_entity) \<Rightarrow>
                if \<not> go_on then returns self []
                else hysteresis h time active_entity self))"

section \<open>Triggers\<close>

text \<open>
  \<^verbatim>\<open>_async_update_temp\<close>. Python's \<^verbatim>\<open>float\<close> is a parameter: \<open>py_float s\<close>
  is the float that \<^verbatim>\<open>float(s)\<close> returns, \<open>None\<close> where it raises
  \<^verbatim>\<open>ValueError\<close>. What it returns need not be a number: \<^verbatim>\<open>float('nan')\<close> is
  not-a-number and \<^verbatim>\<open>float('inf')\<close> and \<^verbatim>\<open>float('1e400')\<close> are infinite. The
  handler logs the exception and goes on.
\<close>

definition async_update_temp ::
  "(string \<Rightarrow> pyfloat option) \<Rightarrow> ha_state \<Rightarrow> thermostat \<Rightarrow> thermostat" where
  "async_update_temp py_float st self =
     (case py_float (state st) of
        Some v \<Rightarrow> self\<lparr>cur_temp := Some v\<rparr>
      | None \<Rightarrow> self)"

text \<open>\<^verbatim>\<open>_async_sensor_changed(entity_id, old_state, new_state)\<close>.\<close>

definition async_sensor_changed ::
  "(string \<Rightarrow> pyfloat option) \<Rightarrow> hass \<Rightarrow> ha_state option \<Rightarrow> thermostat \<Rightarrow> outcome" where
  "async_sensor_changed py_float h new_state self =
     (case new_state of
        None \<Rightarrow> returns self []
      | Some ns \<Rightarrow>
          if state ns \<in> set [STATE_UNAVAILABLE, STATE_UNKNOWN] then returns self []
          else async_control_heating h None False (async_update_temp py_float ns self))"

text \<open>\<^verbatim>\<open>async_set_temperature\<close>, with the keyword argument \<^verbatim>\<open>temperature\<close>.\<close>

definition async_set_temperature :: "hass \<Rightarrow> pyfloat option \<Rightarrow> thermostat \<Rightarrow> outcome" where
  "async_set_temperature h temperature self =
     (case temperature of
        None \<Rightarrow> returns self []
      | Some v \<Rightarrow> async_control_heating h None True (self\<lparr>target_temp := Some v\<rparr>))"

text \<open>
  The events of a call that ran before \<^verbatim>\<open>_async_control_heating\<close> come first in
  the outcome.
\<close>

definition after_events :: "event list \<Rightarrow> outcome \<Rightarrow> outcome" where
  "after_events evs r = r\<lparr>events := evs @ events r\<rparr>"

text \<open>\<^verbatim>\<open>async_set_hvac_mode\<close>. An unrecognised mode is logged and nothing changes.\<close>

definition async_set_hvac_mode :: "hass \<Rightarrow> string \<Rightarrow> thermostat \<Rightarrow> outcome" where
  "async_set_hvac_mode h mode self0 =
     (if mode = HVAC_MODE_HEAT then
        (let self = self0\<lparr>hvac_mode := Some HVAC_MODE_HEAT\<rparr>;
             offs = (if is_device_active h self then
                       (if count_list (reverse_cycle self) REVERSE_CYCLE_IS_COOLER = 0
                        then async_cooler_turn_off self else [])
                       @ (if count_list (reverse_cycle self) REVERSE_CYCLE_IS_DRYER = 0
                          then async_dryer_turn_off self else [])
                     else [])
         in after_events offs (async_control_heating h None True self))
      else if mode = HVAC_MODE_COOL then
        (let self = self0\<lparr>hvac_mode := Some HVAC_MODE_COOL\<rparr>;
             offs = (if is_device_active h self then
                       (if count_list (reverse_cycle self) REVERSE_CYCLE_IS_HEATER = 0
                        then async_heater_turn_off self else [])
                       @ (if count_list (reverse_cycle self) REVERSE_CYCLE_IS_DRYER = 0
                          then async_dryer_turn_off self else [])
                     else [])
         in after_events offs (async_control_heating h None True self))
      else if mode = HVAC_MODE_FAN_ONLY then
        (let self = self0\<lparr>hvac_mode := Some HVAC_MODE_FAN_ONLY\<rparr>;
             offs = (if is_device_active h self then
                       (if count_list (reverse_cycle self) REVERSE_CYCLE_IS_COOLER = 0
                        then async_cooler_turn_off self else [])
                       @ (if count_list (reverse_cycle self) REVERSE_CYCLE_IS_HEATER = 0
                          then async_heater_turn_off self else [])
                       @ (if count_list (reverse_cycle self) REVERSE_CYCLE_IS_DRYER = 0
                          then async_dryer_turn_off self else [])
                     else [])
         in after_events offs (async_control_heating h None True self))
      else if mode = HVAC_MODE_DRY then
        (let self = self0\<lparr>hvac_mode := Some HVAC_MODE_DRY\<rparr>;
             offs = (if is_device_active h self then
                       (if count_list (reverse_cycle self) REVERSE_CYCLE_IS_COOLER = 0
                        then async_cooler_turn_off self else [])
                       @ (if count_list (reverse_cycle self) REVERSE_CYCLE_IS_HEATER = 0
                          then async_heater_turn_off self else [])
                       @ (if count_list (reverse_cycle self) REVERSE_CYCLE_IS_FAN = 0
                          then async_fan_turn_off self else [])
                     else [])
         in after_events offs (async_control_heating h None True self))
      else if mode = HVAC_MODE_OFF then
        (let self = self0\<lparr>hvac_mode := Some HVAC_MODE_OFF\<rparr>
         in if is_device_active h self then
              returns self
                (async_heater_turn_off self
                 @ async_cooler_turn_off self
                 @ (if fan_mode self = FAN_MODE_AUTO then async_fan_turn_off self else [])
                 @ async_dryer_turn_off self)
            else returns self [])
      else returns self0 [])"

text \<open>\<^verbatim>\<open>async_set_preset_mode\<close>.\<close>

definition async_set_preset_mode :: "hass \<Rightarrow> string \<Rightarrow> thermostat \<Rightarrow> outcome" where
  "async_set_preset_mode h preset_mode self =
     (if preset_mode = PRESET_AWAY \<and> \<not> is_away self then
        async_control_heating h None True
          (self\<lparr>is_away := True,
                 saved_target_temp := target_temp self,
                 target_temp := away_temp self\<rparr>)
      else if preset_mode = PRESET_NONE \<and> is_away self then
        async_control_heating h None True
          (self\<lparr>is_away := False, target_temp := saved_target_temp self\<rparr>)
      else returns self [])"

section \<open>Construction and start-up\<close>

text \<open>\<^verbatim>\<open>list.remove(x)\<close>: the first occurrence goes; \<^verbatim>\<open>ValueError\<close> when there is none.\<close>

definition py_remove :: "'a \<Rightarrow> 'a list \<Rightarrow> py_error + 'a list" where
  "py_remove x xs = (if x \<in> set xs then Inr (remove1 x xs) else Inl ValueError)"

text \<open>One conditional \<^verbatim>\<open>remove\<close> of the constructor, after the ones before it.\<close>

definition remove_if :: "bool \<Rightarrow> 'a \<Rightarrow> py_error + 'a list \<Rightarrow> py_error + 'a list" where
  "remove_if b x r =
     (case r of Inl e \<Rightarrow> Inl e | Inr xs \<Rightarrow> if b then py_remove x xs else Inr xs)"

text \<open>\<^verbatim>\<open>a or b\<close> on optional floats: \<^verbatim>\<open>None\<close> and \<^verbatim>\<open>0.0\<close> are false.\<close>

definition py_or :: "pyfloat option \<Rightarrow> pyfloat option \<Rightarrow> pyfloat option" where
  "py_or a b = (case a of None \<Rightarrow> b | Some v \<Rightarrow> if v = Finite 0 then b else Some v)"

text \<open>
  \<^verbatim>\<open>__init__\<close>. The attributes that play no part below (name, sensor id, precision,
  unit, keep-alive interval, the lock, the support flags) are left out.
\<close>

definition init :: "config \<Rightarrow> py_error + thermostat" where
  "init c =
     (let rc = (if count_list (conf_reverse_cycle c) (RBool True) = 1
                then [REVERSE_CYCLE_IS_HEATER, REVERSE_CYCLE_IS_COOLER]
                else if count_list (conf_reverse_cycle c) (RBool False) = 1 then []
                else conf_reverse_cycle c);
          l0 = [HVAC_MODE_COOL, HVAC_MODE_HEAT, HVAC_MODE_DRY, HVAC_MODE_FAN_ONLY, HVAC_MODE_OFF];
          l1 = py_remove HVAC_MODE_FAN_ONLY l0;
          l2 = remove_if (conf_cooler c = None) HVAC_MODE_COOL l1;
          l3 = remove_if (conf_heater c = None) HVAC_MODE_HEAT l2;
          l4 = remove_if (conf_fan c = None) HVAC_MODE_FAN_ONLY l3;
          l5 = remove_if (conf_dryer c = None) HVAC_MODE_DRY l4
      in case l5 of
           Inl e \<Rightarrow> Inl e
         | Inr l \<Rightarrow>
             Inr \<lparr>heater_entity_id = conf_heater c,
                  cooler_entity_id = conf_cooler c,
                  fan_entity_id = conf_fan c,
                  fan_behavior = conf_fan_behavior c,
                  dryer_entity_id = conf_dryer c,
                  dryer_behavior = conf_dryer_behavior c,
                  fan_mode = conf_fan_mode c,
                  reverse_cycle = rc,
                  min_cycle_duration = conf_min_dur c,
                  cold_tolerance = conf_cold_tolerance c,
                  hot_tolerance = conf_hot_tolerance c,
                  hvac_mode = conf_initial_hvac_mode c,
                  saved_target_temp = py_or (conf_target_temp c) (conf_away_temp c),
                  hvac_list = l,
                  active = False,
                  cur_temp = None,
                  raw_min_temp = conf_min_temp c,
                  raw_max_temp = conf_max_temp c,
                  target_temp = conf_target_temp c,
                  away_temp = conf_away_temp c,
                  is_away = False\<rparr>)"

text \<open>
  The properties \<^verbatim>\<open>min_temp\<close> and \<^verbatim>\<open>max_temp\<close>. The value of the base class
  (\<^verbatim>\<open>super().min_temp\<close>) is a parameter.
\<close>

definition min_temp :: "pyfloat \<Rightarrow> thermostat \<Rightarrow> pyfloat" where
  "min_temp super_min_temp self =
     (case raw_min_temp self of Some v \<Rightarrow> v | None \<Rightarrow> super_min_temp)"

definition max_temp :: "pyfloat \<Rightarrow> thermostat \<Rightarrow> pyfloat" where
  "max_temp super_max_temp self =
     (case raw_max_temp self of Some v \<Rightarrow> v | None \<Rightarrow> super_max_temp)"

text \<open>Python's truth value of an optional string: \<^verbatim>\<open>None\<close> and \<^verbatim>\<open>''\<close> are false.\<close>

definition truthy :: "string option \<Rightarrow> bool" where
  "truthy s = (case s of None \<Rightarrow> False | Some v \<Rightarrow> v \<noteq> [])"

text \<open>
  The part of \<^verbatim>\<open>async_added_to_hass\<close> after the listeners are registered (lines 316
  to 363): \<open>old_state\<close> is what \<^verbatim>\<open>async_get_last_state\<close> returned. Each
  \<^verbatim>\<open>if\<close> of the source is one step here, in the source's order.
\<close>

definition async_added_to_hass ::
  "pyfloat \<Rightarrow> pyfloat \<Rightarrow> ha_state option \<Rightarrow> thermostat \<Rightarrow> thermostat" where
  "async_added_to_hass super_min_temp super_max_temp old_state self0 =
     (let self4 =
        (case old_state of
           Some old \<Rightarrow>
             (let self1 =
                (if target_temp self0 = None then
                   (if attr_temperature old = None then
                      (let s1 = (if hvac_mode self0 = Some HVAC_MODE_COOL
                                 then self0\<lparr>target_temp := Some (max_temp super_max_temp self0)\<rparr>
                                 else self0);
                           s2 = (if hvac_mode s1 = Some HVAC_MODE_FAN_ONLY
                                 then s1\<lparr>target_temp := Some (max_temp super_max_temp s1)\<rparr>
                                 else s1);
                           s3 = (if hvac_mode s2 = Some HVAC_MODE_HEAT
                                 then s2\<lparr>target_temp := Some (min_temp super_min_temp s2)\<rparr>
                                 else s2)
                       in if hvac_mode s3 = Some HVAC_MODE_DRY
                          then s3\<lparr>target_temp := raw_min_temp s3\<rparr>
                          else s3\<lparr>target_temp := Some (min_temp super_min_temp s3)\<rparr>)
                    else self0\<lparr>target_temp := attr_temperature old\<rparr>)
                 else self0);
                  self2 = (if attr_preset_mode old = Some PRESET_AWAY
                           then self1\<lparr>is_away := True\<rparr> else self1);
                  self3 = (if \<not> truthy (hvac_mode self2) \<and> state old \<noteq> []
                           then self2\<lparr>hvac_mode := Some (state old)\<rparr> else self2)
              in self3)
         | None \<Rightarrow>
             (if target_temp self0 = None then
                (let s1 = (if hvac_mode self0 = Some HVAC_MODE_COOL
                           then self0\<lparr>target_temp := Some (max_temp super_max_temp self0)\<rparr>
                           else self0);
                     s2 = (if hvac_mode s1 = Some HVAC_MODE_FAN_ONLY
                           then s1\<lparr>target_temp := Some (max_temp super_max_temp s1)\<rparr>
                           else s1);
                     s3 = (if hvac_mode s2 = Some HVAC_MODE_HEAT
                           then s2\<lparr>target_temp := Some (min_temp super_min_temp s2)\<rparr>
                           else s2)
                 in if hvac_mode s3 = Some HVAC_MODE_DRY
                    then s3\<lparr>target_temp := Some (min_temp super_min_temp s3)\<rparr>
                    else s3\<lparr>target_temp := Some (min_temp super_min_temp s3)\<rparr>)
              else self0))
      in if \<not> truthy (hvac_mode self4) then self4\<lparr>hvac_mode := Some HVAC_MODE_OFF\<rparr> else self4)"

section \<open>Example objects\<close>

text \<open>
  A thermostat with all four devices, as the constructor builds it for a heater, a cooler,
  a fan and a dryer, an initial mode of \<^verbatim>\<open>heat\<close>, a target of 21 degrees and the default
  tolerances; and three snapshots of the platform.
\<close>

definition example_config :: config where
  "example_config =
     \<lparr>conf_heater = Some ''switch.heater'',
      conf_cooler = Some ''switch.cooler'',
      conf_fan = Some ''switch.fan'',
      conf_fan_behavior = FAN_MODE_NEUTRAL,
      conf_dryer = Some ''switch.dryer'',
      conf_dryer_behavior = DRYER_MODE_NEUTRAL,
      conf_reverse_cycle = [REVERSE_CYCLE_IS_HEATER, REVERSE_CYCLE_IS_COOLER],
      conf_min_temp = Some (Finite 7),
      conf_max_temp = Some (Finite 35),
      conf_target_temp = Some (Finite 21),
      conf_min_dur = None,
      conf_cold_tolerance = tenths 3,
      conf_hot_tolerance = tenths 3,
      conf_initial_hvac_mode = Some HVAC_MODE_HEAT,
      conf_away_temp = Some (Finite 16),
      conf_fan_mode = FAN_MODE_AUTO\<rparr>"

definition example_thermostat :: thermostat where
  "example_thermostat =
     \<lparr>heater_entity_id = Some ''switch.heater'',
      cooler_entity_id = Some ''switch.cooler'',
      fan_entity_id = Some ''switch.fan'',
      fan_behavior = FAN_MODE_NEUTRAL,
      dryer_entity_id = Some ''switch.dryer'',
      dryer_behavior = DRYER_MODE_NEUTRAL,
      fan_mode = FAN_MODE_AUTO,
      reverse_cycle = [REVERSE_CYCLE_IS_HEATER, REVERSE_CYCLE_IS_COOLER],
      min_cycle_duration = None,
      cold_tolerance = tenths 3,
      hot_tolerance = tenths 3,
      hvac_mode = Some HVAC_MODE_HEAT,
      saved_target_temp = Some (Finite 21),
      hvac_list = [HVAC_MODE_COOL, HVAC_MODE_HEAT, HVAC_MODE_DRY, HVAC_MODE_OFF],
      active = False,
      cur_temp = None,
      raw_min_temp = Some (Finite 7),
      raw_max_temp = Some (Finite 35),
      target_temp = Some (Finite 21),
      away_temp = Some (Finite 16),
      is_away = False\<rparr>"

definition switch_state :: "string \<Rightarrow> nat \<Rightarrow> ha_state" where
  "switch_state s n =
     \<lparr>state = s, attr_temperature = None, attr_preset_mode = None, since_changed = n\<rparr>"

text \<open>Every switch has been off for two minutes.\<close>

definition devices_off :: hass where
  "devices_off =
     (\<lambda>e. if e \<in> set [''switch.heater'', ''switch.cooler'', ''switch.fan'', ''switch.dryer'']
          then Some (switch_state ''off'' 120) else None)"

text \<open>The heater has been on for two minutes.\<close>

definition heater_running :: hass where
  "heater_running = devices_off(''switch.heater'' \<mapsto> switch_state STATE_ON 120)"

text \<open>Heater and cooler are both on.\<close>

definition both_running :: hass where
  "both_running = heater_running(''switch.cooler'' \<mapsto> switch_state STATE_ON 120)"

text \<open>
  A sensor state with the given text, and a stand-in for \<^verbatim>\<open>float\<close> that knows the
  readings of the examples (\<^verbatim>\<open>float('nan')\<close> is not-a-number) and rejects every other
  string.
\<close>

definition reading :: "string \<Rightarrow> ha_state" where
  "reading s = \<lparr>state = s, attr_temperature = None, attr_preset_mode = None, since_changed = 0\<rparr>"

definition example_float :: "string \<Rightarrow> pyfloat option" where
  "example_float =
     map_of [(''20.6'', tenths 206), (''21.4'', tenths 214), (''nan'', NaN)]"

section \<open>The arithmetic of the examples\<close>

text \<open>
  The comparisons that the examples below come down to, computed in double arithmetic.
  The last one is a sum that rounds up: \<^verbatim>\<open>20.6 + 0.3\<close> is
  \<^verbatim>\<open>20.900000000000002\<close>, which \<^verbatim>\<open>20.9\<close> does not reach.
\<close>

text \<open>
  The exponent brackets its argument between two powers of two, and rounding to an
  integer moves a number by a half at most.
\<close>

lemma pow2_nonneg: "0 \<le> k \<Longrightarrow> pow2 k = 2 ^ nat k"
  by (simp add: pow2_def)

lemma pow2_neg: "k < 0 \<Longrightarrow> pow2 k = 1 / 2 ^ nat (- k)"
  by (simp add: pow2_def)

lemma exponent_ge_one:
  assumes "1 \<le> \<bar>q\<bar>"
  shows "pow2 (exponent q) \<le> \<bar>q\<bar> \<and> \<bar>q\<bar> < pow2 (exponent q + 1)"
proof -
  let ?m = "\<lfloor>\<bar>q\<bar>\<rfloor>"
  have m: "0 < ?m" using assms by simp
  from bitlen_bounds [OF m] have lo: "2 ^ nat (bitlen ?m - 1) \<le> ?m" and hi: "?m < 2 ^ nat (bitlen ?m)"
    by auto
  have b1: "1 \<le> bitlen ?m" using m by (simp add: bitlen_alt_def)
  have e: "exponent q = bitlen ?m - 1" using assms by (simp add: exponent_def)
  have "(2::rat) ^ nat (bitlen ?m - 1) = of_int (2 ^ nat (bitlen ?m - 1))" by simp
  also have "\<dots> \<le> of_int ?m" using lo by (simp only: of_int_le_iff)
  also have "\<dots> \<le> \<bar>q\<bar>" by simp
  finally have 1: "pow2 (exponent q) \<le> \<bar>q\<bar>" using b1 by (simp add: e pow2_nonneg)
  have "?m + 1 \<le> 2 ^ nat (bitlen ?m)" using hi by simp
  then have "(of_int (?m + 1) :: rat) \<le> of_int (2 ^ nat (bitlen ?m))" by (simp only: of_int_le_iff)
  moreover have "\<bar>q\<bar> < of_int (?m + 1)" using floor_correct [of "\<bar>q\<bar>"] by simp
  ultimately have "\<bar>q\<bar> < 2 ^ nat (bitlen ?m)" by simp
  then have 2: "\<bar>q\<bar> < pow2 (exponent q + 1)" using b1 by (simp add: e pow2_nonneg)
  from 1 2 show ?thesis ..
qed

lemma exponent_lt_one:
  assumes "q \<noteq> 0" and "\<bar>q\<bar> < 1"
  shows "pow2 (exponent q) \<le> \<bar>q\<bar> \<and> \<bar>q\<bar> < pow2 (exponent q + 1)"
proof -
  let ?y = "1 / \<bar>q\<bar>"
  let ?n = "\<lceil>?y\<rceil> - 1"
  have q: "0 < \<bar>q\<bar>" using assms(1) by simp
  have y: "1 < ?y" using assms q by (simp add: field_simps)
  then have c: "2 \<le> \<lceil>?y\<rceil>" by (simp add: le_ceiling_iff)
  then have n: "0 < ?n" by simp
  from bitlen_bounds [OF n] have lo: "2 ^ nat (bitlen ?n - 1) \<le> ?n" and hi: "?n < 2 ^ nat (bitlen ?n)"
    by auto
  have b1: "1 \<le> bitlen ?n" using n by (simp add: bitlen_alt_def)
  have e: "exponent q = - bitlen ?n" using assms by (simp add: exponent_def)
  have "?y \<le> of_int \<lceil>?y\<rceil>" by simp
  also have "(of_int \<lceil>?y\<rceil> :: rat) \<le> of_int (2 ^ nat (bitlen ?n))"
    using hi by (simp only: of_int_le_iff)
  finally have yle: "?y \<le> 2 ^ nat (bitlen ?n)" by simp
  have 1: "pow2 (exponent q) \<le> \<bar>q\<bar>"
    using yle q b1 by (simp add: e pow2_neg field_simps)
  have "(of_int (2 ^ nat (bitlen ?n - 1)) :: rat) \<le> of_int ?n" using lo by (simp only: of_int_le_iff)
  moreover have "of_int ?n < ?y" using ceiling_correct [of ?y] by simp
  ultimately have ygt: "2 ^ nat (bitlen ?n - 1) < ?y" by simp
  have 2: "\<bar>q\<bar> < pow2 (exponent q + 1)"
  proof (cases "bitlen ?n = 1")
    case True
    then show ?thesis using assms(2) by (simp add: e pow2_def)
  next
    case False
    with b1 have "- bitlen ?n + 1 < 0" by simp
    moreover have "nat (bitlen ?n - 1) = nat (- (- bitlen ?n + 1))" by simp
    ultimately show ?thesis using ygt q by (simp add: e pow2_neg field_simps)
  qed
  from 1 2 show ?thesis ..
qed

lemma exponent_bounds:
  "q \<noteq> 0 \<Longrightarrow> pow2 (exponent q) \<le> \<bar>q\<bar> \<and> \<bar>q\<bar> < pow2 (exponent q + 1)"
  using exponent_ge_one [of q] exponent_lt_one [of q] by (cases "1 \<le> \<bar>q\<bar>") auto

lemma round_half_even_near: "\<bar>of_int (round_half_even x) - x\<bar> \<le> 1 / 2"
proof -
  have "of_int \<lfloor>x\<rfloor> \<le> x" "x < of_int \<lfloor>x\<rfloor> + 1" by linarith+
  then show ?thesis by (auto simp add: round_half_even_def Let_def abs_le_iff)
qed


lemma fge_refl: "x \<noteq> NaN \<Longrightarrow> fge x x"
  by (cases x) (simp_all add: fge.simps)

lemma float_facts:
  "fge (Finite 21) (fadd (tenths 206) (tenths 3))"
  "fge (tenths 214) (fadd (Finite 21) (tenths 3))"
  "fge (Finite 21) (fadd (Finite (41 / 2)) (Finite (1 / 2)))"
  "\<not> fge (Finite 21) (fadd (tenths 206) (Finite (1 / 2)))"
  "fge (Finite 21) (fadd (Finite 20) (tenths 3))"
  "\<not> fge (Finite 21) (fadd (Finite 21) (tenths 3))"
  "\<not> fge (tenths 209) (fadd (tenths 206) (tenths 3))"
  by code_simp+

section \<open>The constructor and the list of modes\<close>

lemma init_example: "init example_config = Inr example_thermostat"
  by (simp add: init_def example_config_def example_thermostat_def py_remove_def
      remove_if_def py_or_def Let_def)

text \<open>
  Claim C10. The constructor removes \<^verbatim>\<open>fan_only\<close> from the list of modes before it
  looks at the configuration. Without a fan entity it removes \<^verbatim>\<open>fan_only\<close> a second
  time, and \<^verbatim>\<open>list.remove\<close> raises \<^verbatim>\<open>ValueError\<close>: no thermostat is built. With a
  fan entity the constructor succeeds, and \<^verbatim>\<open>fan_only\<close> is not among the modes of any
  thermostat it builds.
\<close>

theorem init_fan_only:
  "(conf_fan c = None \<longrightarrow> init c = Inl ValueError)
   \<and> (conf_fan c \<noteq> None \<longrightarrow> (\<exists>self. init c = Inr self))
   \<and> (\<forall>self. init c = Inr self \<longrightarrow> HVAC_MODE_FAN_ONLY \<notin> set (hvac_list self))"
  by (cases "conf_cooler c"; cases "conf_heater c"; cases "conf_fan c"; cases "conf_dryer c")
     (auto simp add: init_def py_remove_def remove_if_def Let_def)

theorem init_fan_only_witness:
  "init (example_config\<lparr>conf_fan := None\<rparr>) = Inl ValueError
   \<and> (\<exists>self. init example_config = Inr self \<and> HVAC_MODE_FAN_ONLY \<notin> set (hvac_list self))"
proof -
  have a: "conf_fan (example_config\<lparr>conf_fan := None\<rparr>) = None" by simp
  have b: "conf_fan example_config \<noteq> None" by (simp add: example_config_def)
  from init_fan_only [of "example_config\<lparr>conf_fan := None\<rparr>"] a
  have 1: "init (example_config\<lparr>conf_fan := None\<rparr>) = Inl ValueError" by blast
  from init_fan_only [of example_config] b
  obtain self where 2: "init example_config = Inr self" by blast
  with init_fan_only [of example_config]
  have "HVAC_MODE_FAN_ONLY \<notin> set (hvac_list self)" by blast
  with 1 2 show ?thesis by blast
qed

section \<open>Cooler commands and the fan\<close>

text \<open>
  Claim C7, as amended. With a cooler and a fan configured, the cooler commands issue
  the fan command themselves, as a service call of their own and not as a scheduled task.
  Turning the cooler on calls the fan on first, whatever the fan mode is. Turning the
  cooler off calls the fan off first (before the cooler, not after it) when the fan mode
  is \<^verbatim>\<open>auto\<close>, and issues no fan command otherwise.
\<close>

theorem cooler_commands_fan:
  assumes "cooler_entity_id self = Some c" and "fan_entity_id self = Some f"
  shows "async_cooler_turn_on self = [Call SERVICE_TURN_ON f, Call SERVICE_TURN_ON c]
    \<and> async_cooler_turn_off self =
        (if fan_mode self = FAN_MODE_AUTO
         then [Call SERVICE_TURN_OFF f, Call SERVICE_TURN_OFF c]
         else [Call SERVICE_TURN_OFF c])"
  using assms
  by (simp add: async_cooler_turn_on_def async_cooler_turn_off_def
      async_fan_turn_on_def async_fan_turn_off_def)

theorem cooler_commands_fan_witness:
  "async_cooler_turn_on example_thermostat
     = [Call SERVICE_TURN_ON ''switch.fan'', Call SERVICE_TURN_ON ''switch.cooler'']
   \<and> async_cooler_turn_off (example_thermostat\<lparr>fan_mode := FAN_MODE_ON\<rparr>)
     = [Call SERVICE_TURN_OFF ''switch.cooler'']"
proof -
  have c: "cooler_entity_id example_thermostat = Some ''switch.cooler''"
    and f: "fan_entity_id example_thermostat = Some ''switch.fan''"
    by (simp_all add: example_thermostat_def)
  have c': "cooler_entity_id (example_thermostat\<lparr>fan_mode := FAN_MODE_ON\<rparr>)
              = Some ''switch.cooler''"
    and f': "fan_entity_id (example_thermostat\<lparr>fan_mode := FAN_MODE_ON\<rparr>)
              = Some ''switch.fan''"
    by (simp_all add: example_thermostat_def)
  from cooler_commands_fan [OF c f] cooler_commands_fan [OF c' f']
  show ?thesis by simp
qed

text \<open>
  The claim as it was stated fails twice. In \<^verbatim>\<open>auto\<close> mode the fan-off call comes
  before the cooler-off call; and with the fan mode \<^verbatim>\<open>on\<close> the cooler-on command is
  still accompanied by a fan-on call.
\<close>

theorem cooler_commands_fan_counterexample:
  "async_cooler_turn_off (example_thermostat\<lparr>fan_mode := FAN_MODE_AUTO\<rparr>)
     = [Call SERVICE_TURN_OFF ''switch.fan'', Call SERVICE_TURN_OFF ''switch.cooler'']
   \<and> async_cooler_turn_off (example_thermostat\<lparr>fan_mode := FAN_MODE_AUTO\<rparr>)
     \<noteq> [Call SERVICE_TURN_OFF ''switch.cooler'', Call SERVICE_TURN_OFF ''switch.fan'']
   \<and> fan_mode (example_thermostat\<lparr>fan_mode := FAN_MODE_ON\<rparr>) \<noteq> FAN_MODE_AUTO
   \<and> async_cooler_turn_on (example_thermostat\<lparr>fan_mode := FAN_MODE_ON\<rparr>)
     = [Call SERVICE_TURN_ON ''switch.fan'', Call SERVICE_TURN_ON ''switch.cooler'']"
  by (simp add: example_thermostat_def async_cooler_turn_on_def async_cooler_turn_off_def
      async_fan_turn_on_def async_fan_turn_off_def)

section \<open>Switching the thermostat off\<close>

text \<open>
  Claim C5. When a device is active, setting the mode to \<^verbatim>\<open>off\<close> issues a turn-off
  call to the heater, to the cooler and to the dryer (each where it is configured), and to
  the fan when the fan mode is \<^verbatim>\<open>auto\<close>. The \<^verbatim>\<open>reverse_cycle\<close> option plays no part:
  the same events are issued for every value of it. The mode ends as \<^verbatim>\<open>off\<close> and
  nothing is raised.
\<close>

theorem set_hvac_mode_off:
  assumes "is_device_active h self"
  shows "(\<forall>e. heater_entity_id self = Some e \<longrightarrow>
            Call SERVICE_TURN_OFF e \<in> set (events (async_set_hvac_mode h HVAC_MODE_OFF self)))
    \<and> (\<forall>e. cooler_entity_id self = Some e \<longrightarrow>
            Call SERVICE_TURN_OFF e \<in> set (events (async_set_hvac_mode h HVAC_MODE_OFF self)))
    \<and> (\<forall>e. dryer_entity_id self = Some e \<longrightarrow>
            Call SERVICE_TURN_OFF e \<in> set (events (async_set_hvac_mode h HVAC_MODE_OFF self)))
    \<and> (\<forall>e. fan_mode self = FAN_MODE_AUTO \<and> fan_entity_id self = Some e \<longrightarrow>
            Call SERVICE_TURN_OFF e \<in> set (events (async_set_hvac_mode h HVAC_MODE_OFF self)))
    \<and> events (async_set_hvac_mode h HVAC_MODE_OFF (self\<lparr>reverse_cycle := rc\<rparr>))
        = events (async_set_hvac_mode h HVAC_MODE_OFF self)
    \<and> hvac_mode (self_after (async_set_hvac_mode h HVAC_MODE_OFF self)) = Some HVAC_MODE_OFF
    \<and> raised (async_set_hvac_mode h HVAC_MODE_OFF self) = None"
proof -
  have a: "is_device_active h (self\<lparr>hvac_mode := Some HVAC_MODE_OFF\<rparr>)"
    using assms by (simp add: is_device_active_def)
  have b: "is_device_active h (self\<lparr>reverse_cycle := rc, hvac_mode := Some HVAC_MODE_OFF\<rparr>)"
    using assms by (simp add: is_device_active_def)
  show ?thesis
    using a b
    by (simp add: async_set_hvac_mode_def Let_def returns_def
        async_heater_turn_off_def async_cooler_turn_off_def async_fan_turn_off_def
        async_dryer_turn_off_def)
qed

theorem set_hvac_mode_off_witness:
  "is_device_active both_running example_thermostat
   \<and> reverse_cycle example_thermostat = [REVERSE_CYCLE_IS_HEATER, REVERSE_CYCLE_IS_COOLER]
   \<and> Call SERVICE_TURN_OFF ''switch.heater''
        \<in> set (events (async_set_hvac_mode both_running HVAC_MODE_OFF example_thermostat))
   \<and> Call SERVICE_TURN_OFF ''switch.cooler''
        \<in> set (events (async_set_hvac_mode both_running HVAC_MODE_OFF example_thermostat))
   \<and> Call SERVICE_TURN_OFF ''switch.dryer''
        \<in> set (events (async_set_hvac_mode both_running HVAC_MODE_OFF example_thermostat))
   \<and> Call SERVICE_TURN_OFF ''switch.fan''
        \<in> set (events (async_set_hvac_mode both_running HVAC_MODE_OFF example_thermostat))"
proof -
  have a: "is_device_active both_running example_thermostat"
    by (simp add: is_device_active_def example_thermostat_def both_running_def
        heater_running_def devices_off_def if_set_def is_state_def switch_state_def)
  have b: "heater_entity_id example_thermostat = Some ''switch.heater''"
      "cooler_entity_id example_thermostat = Some ''switch.cooler''"
      "dryer_entity_id example_thermostat = Some ''switch.dryer''"
      "fan_entity_id example_thermostat = Some ''switch.fan''"
      "fan_mode example_thermostat = FAN_MODE_AUTO"
      "reverse_cycle example_thermostat = [REVERSE_CYCLE_IS_HEATER, REVERSE_CYCLE_IS_COOLER]"
    by (simp_all add: example_thermostat_def)
  from set_hvac_mode_off [OF a] b a show ?thesis by blast
qed

section \<open>Facts about one evaluation\<close>

lemma hysteresis_self_after: "self_after (hysteresis h time a self) = self"
  by (simp add: hysteresis_def returns_def raises_def Let_def split: option.splits sum.splits)

lemma control_heating_self_after:
  "self_after (async_control_heating h time force self) = activate self"
  by (simp add: async_control_heating_def returns_def raises_def Let_def hysteresis_self_after
      split: sum.splits prod.splits)

lemma hysteresis_unset:
  "cur_temp self = None \<or> target_temp self = None \<Longrightarrow> events (hysteresis h time a self) = []"
  by (auto simp add: hysteresis_def raises_def split: option.splits)

lemma activate_fields [simp]:
  "cur_temp (activate self) = cur_temp self"
  "target_temp (activate self) = target_temp self"
  "hvac_mode (activate self) = hvac_mode self"
  by (simp_all add: activate_def)

section \<open>No command before both temperatures are known, or when off\<close>

text \<open>
  Claim C6. An evaluation issues no command while the current or the target temperature
  is unset. If the thermostat is not yet active either, the evaluation returns normally and
  leaves the object as it was. When the mode is \<^verbatim>\<open>off\<close> the evaluation returns normally
  without a command (it may have marked the thermostat active). This holds for every
  trigger: any \<open>time\<close>, forced or not.
\<close>

theorem no_command_unset_or_off:
  "(cur_temp self = None \<or> target_temp self = None \<longrightarrow>
      events (async_control_heating h time force self) = [])
   \<and> ((cur_temp self = None \<or> target_temp self = None) \<and> \<not> active self \<longrightarrow>
      async_control_heating h time force self = returns self [])
   \<and> (hvac_mode self = Some HVAC_MODE_OFF \<longrightarrow>
      async_control_heating h time force self = returns (activate self) [])"
proof (intro conjI impI)
  assume u: "cur_temp self = None \<or> target_temp self = None"
  then have "events (hysteresis h time a (activate self)) = []" for a
    by (intro hysteresis_unset) simp
  then show "events (async_control_heating h time force self) = []"
    by (simp add: async_control_heating_def returns_def raises_def Let_def
        split: sum.splits prod.splits)
next
  assume "(cur_temp self = None \<or> target_temp self = None) \<and> \<not> active self"
  then have "activate self = self" "\<not> active self" by (auto simp add: activate_def)
  then show "async_control_heating h time force self = returns self []"
    by (simp add: async_control_heating_def Let_def)
next
  assume "hvac_mode self = Some HVAC_MODE_OFF"
  then show "async_control_heating h time force self = returns (activate self) []"
    by (simp add: async_control_heating_def Let_def)
qed

theorem no_command_unset_or_off_witness:
  "cur_temp example_thermostat = None \<and> \<not> active example_thermostat
   \<and> async_control_heating devices_off None True example_thermostat
       = returns example_thermostat []
   \<and> events (async_control_heating devices_off (Some 0) False
        (example_thermostat\<lparr>hvac_mode := Some HVAC_MODE_OFF, cur_temp := Some (Finite 15)\<rparr>)) = []"
proof -
  have a: "cur_temp example_thermostat = None" "\<not> active example_thermostat"
    by (simp_all add: example_thermostat_def)
  have b: "hvac_mode (example_thermostat\<lparr>hvac_mode := Some HVAC_MODE_OFF, cur_temp := Some (Finite 15)\<rparr>)
             = Some HVAC_MODE_OFF" by simp
  from no_command_unset_or_off [of example_thermostat devices_off None True] a
  have 1: "async_control_heating devices_off None True example_thermostat
       = returns example_thermostat []" by blast
  from no_command_unset_or_off
        [of "example_thermostat\<lparr>hvac_mode := Some HVAC_MODE_OFF, cur_temp := Some (Finite 15)\<rparr>"
            devices_off "Some 0" False] b
  have 2: "events (async_control_heating devices_off (Some 0) False
        (example_thermostat\<lparr>hvac_mode := Some HVAC_MODE_OFF, cur_temp := Some (Finite 15)\<rparr>)) = []"
    by (simp add: returns_def)
  from a 1 2 show ?thesis by blast
qed

section \<open>The away preset\<close>

text \<open>
  Claim C9. From a state that is not away, the preset \<^verbatim>\<open>away\<close> saves the target
  temperature, replaces it with the configured away value and marks the thermostat away;
  the preset \<^verbatim>\<open>none\<close> after it (whatever the devices do in between) gives the target
  temperature back exactly and clears the mark. A request for the preset that is already in
  force changes nothing and issues nothing.
\<close>

theorem preset_round_trip:
  assumes "\<not> is_away self"
  shows "saved_target_temp (self_after (async_set_preset_mode h PRESET_AWAY self)) = target_temp self
    \<and> target_temp (self_after (async_set_preset_mode h PRESET_AWAY self)) = away_temp self
    \<and> is_away (self_after (async_set_preset_mode h PRESET_AWAY self))
    \<and> target_temp (self_after (async_set_preset_mode h' PRESET_NONE
          (self_after (async_set_preset_mode h PRESET_AWAY self)))) = target_temp self
    \<and> \<not> is_away (self_after (async_set_preset_mode h' PRESET_NONE
          (self_after (async_set_preset_mode h PRESET_AWAY self))))
    \<and> async_set_preset_mode h PRESET_NONE self = returns self []
    \<and> async_set_preset_mode h PRESET_AWAY (self\<lparr>is_away := True\<rparr>)
        = returns (self\<lparr>is_away := True\<rparr>) []"
  using assms
  by (simp add: async_set_preset_mode_def control_heating_self_after activate_def)

theorem preset_round_trip_witness:
  "\<not> is_away example_thermostat
   \<and> target_temp example_thermostat = Some (Finite 21)
   \<and> target_temp (self_after (async_set_preset_mode devices_off PRESET_AWAY example_thermostat))
       = Some (Finite 16)
   \<and> target_temp (self_after (async_set_preset_mode heater_running PRESET_NONE
          (self_after (async_set_preset_mode devices_off PRESET_AWAY example_thermostat))))
       = Some (Finite 21)"
proof -
  have a: "\<not> is_away example_thermostat" by (simp add: example_thermostat_def)
  have b: "target_temp example_thermostat = Some (Finite 21)" "away_temp example_thermostat = Some (Finite 16)"
    by (simp_all add: example_thermostat_def)
  from preset_round_trip [OF a, of devices_off heater_running] a b show ?thesis by simp
qed

section \<open>Reaching the hysteresis step\<close>

lemma activate_active: "active self \<Longrightarrow> activate self = self"
  by (simp add: activate_def)

lemma control_heating_reaches:
  assumes "active self" and "hvac_mode self \<noteq> Some HVAC_MODE_OFF"
    and "min_cycle_gate h time force self = Inr (True, a)"
  shows "async_control_heating h time force self = hysteresis h time a self"
  using assms by (simp add: async_control_heating_def activate_active Let_def)

lemma hysteresis_decide:
  assumes "cur_temp self = Some c" and "target_temp self = Some t"
  shows "hysteresis h time a self =
     (case decide h time a self (fge t (fadd c (cold_tolerance self))) (fge c (fadd t (hot_tolerance self))) of
        Inl e \<Rightarrow> raises self [] e
      | Inr evs \<Rightarrow> returns self (evs @ neutral_devices self))"
  using assms by (simp add: hysteresis_def Let_def)

lemma heat_turn_on_iff:
  assumes "cur_temp self = Some c" and "target_temp self = Some t"
    and "hvac_mode self = Some HVAC_MODE_HEAT" and "heater_entity_id self = Some e"
    and "\<not> is_device_active h self"
  shows "Call SERVICE_TURN_ON e \<in> set (events (hysteresis h time a self))
           \<longleftrightarrow> fge t (fadd c (cold_tolerance self))"
  using assms
  by (auto simp add: hysteresis_def decide_def returns_def raises_def neutral_devices_def
      keep_alive_turn_off_def async_heater_turn_on_def async_heater_turn_off_def Let_def
      split: option.splits)

lemma heat_turn_off_iff:
  assumes "cur_temp self = Some c" and "target_temp self = Some t"
    and "hvac_mode self = Some HVAC_MODE_HEAT" and "heater_entity_id self = Some e"
    and "is_device_active h self"
  shows "Call SERVICE_TURN_OFF e \<in> set (events (hysteresis h time a self))
           \<longleftrightarrow> fge c (fadd t (hot_tolerance self))"
  using assms
  by (auto simp add: hysteresis_def decide_def returns_def raises_def neutral_devices_def
      keep_alive_turn_on_def async_heater_turn_on_def async_heater_turn_off_def Let_def
      split: option.splits)

lemma cool_turn_on_iff:
  assumes "cur_temp self = Some c" and "target_temp self = Some t"
    and "hvac_mode self = Some HVAC_MODE_COOL" and "cooler_entity_id self = Some e"
    and "\<not> is_device_active h self"
  shows "Call SERVICE_TURN_ON e \<in> set (events (hysteresis h time a self))
           \<longleftrightarrow> fge c (fadd t (hot_tolerance self))"
  using assms
  by (auto simp add: hysteresis_def decide_def returns_def raises_def neutral_devices_def
      keep_alive_turn_off_def async_cooler_turn_on_def async_cooler_turn_off_def
      async_fan_turn_on_def async_fan_turn_off_def Let_def
      split: option.splits)

lemma cool_turn_off_iff:
  assumes "cur_temp self = Some c" and "target_temp self = Some t"
    and "hvac_mode self = Some HVAC_MODE_COOL" and "cooler_entity_id self = Some e"
    and "is_device_active h self"
  shows "Call SERVICE_TURN_OFF e \<in> set (events (hysteresis h time a self))
           \<longleftrightarrow> fge t (fadd c (cold_tolerance self))"
  using assms
  by (auto simp add: hysteresis_def decide_def returns_def raises_def neutral_devices_def
      keep_alive_turn_on_def async_cooler_turn_on_def async_cooler_turn_off_def
      async_fan_turn_on_def async_fan_turn_off_def Let_def
      split: option.splits)


lemmas eval_defs = async_sensor_changed_def reading_def example_float_def async_update_temp_def
      async_control_heating_def activate_def min_cycle_gate_def hysteresis_def decide_def
      neutral_devices_def async_heater_turn_on_def async_heater_turn_off_def Let_def
      is_device_active_def example_thermostat_def devices_off_def heater_running_def if_set_def
      is_state_def switch_state_def returns_def raises_def float_facts

text \<open>The two readings of the example of claim C1.\<close>

lemma example_first_reading:
  "async_sensor_changed example_float devices_off (Some (reading ''20.6'')) example_thermostat
     = returns (example_thermostat\<lparr>cur_temp := Some (tenths 206), active := True\<rparr>)
         [Call SERVICE_TURN_ON ''switch.heater'', EnsureFuture fan_on]"
  by (simp add: eval_defs)

lemma example_second_reading:
  "async_sensor_changed example_float heater_running (Some (reading ''21.4''))
     (example_thermostat\<lparr>cur_temp := Some (tenths 206), active := True\<rparr>)
     = returns (example_thermostat\<lparr>cur_temp := Some (tenths 214), active := True\<rparr>)
         [Call SERVICE_TURN_OFF ''switch.heater'', EnsureFuture fan_off]"
  by (simp add: eval_defs)


section \<open>The hysteresis thresholds\<close>

text \<open>
  Claim C1. An evaluation that reaches the hysteresis step (the thermostat is active, the
  mode is not \<^verbatim>\<open>off\<close>, the minimum-cycle gate lets it pass) decides on two comparisons
  only, both in Python's float arithmetic: \<^verbatim>\<open>too_cold\<close> is
  \<^verbatim>\<open>target >= current + cold_tolerance\<close> and \<^verbatim>\<open>too_hot\<close> is
  \<^verbatim>\<open>current >= target + hot_tolerance\<close>. In \<^verbatim>\<open>heat\<close> mode the heater is called on,
  from rest, exactly when it is too cold, and called off, while a device runs, exactly when
  it is too hot. The comparisons are inclusive: when the sum is the target itself (and is a
  number) the heater is called on. With a target of 21 and tolerances of 0.3, the reading
  20.6 turns the heater on and the reading 21.4 after it turns the heater off.
\<close>

theorem hysteresis_thresholds:
  assumes "active self" and "hvac_mode self \<noteq> Some HVAC_MODE_OFF"
    and "cur_temp self = Some c" and "target_temp self = Some t"
    and "min_cycle_gate h time force self = Inr (True, a)"
  shows "async_control_heating h time force self =
      (case decide h time a self (fge t (fadd c (cold_tolerance self))) (fge c (fadd t (hot_tolerance self))) of
         Inl e \<Rightarrow> raises self [] e
       | Inr evs \<Rightarrow> returns self (evs @ neutral_devices self))
    \<and> (hvac_mode self = Some HVAC_MODE_HEAT \<and> heater_entity_id self = Some e \<longrightarrow>
         (if is_device_active h self
          then Call SERVICE_TURN_OFF e \<in> set (events (async_control_heating h time force self))
                 \<longleftrightarrow> fge c (fadd t (hot_tolerance self))
          else Call SERVICE_TURN_ON e \<in> set (events (async_control_heating h time force self))
                 \<longleftrightarrow> fge t (fadd c (cold_tolerance self))))
    \<and> (hvac_mode self = Some HVAC_MODE_HEAT \<and> heater_entity_id self = Some e
        \<and> \<not> is_device_active h self \<and> t \<noteq> NaN \<and> fadd c (cold_tolerance self) = t \<longrightarrow>
         Call SERVICE_TURN_ON e \<in> set (events (async_control_heating h time force self)))
    \<and> events (async_sensor_changed example_float devices_off (Some (reading ''20.6''))
         example_thermostat)
        = [Call SERVICE_TURN_ON ''switch.heater'', EnsureFuture fan_on]
    \<and> events (async_sensor_changed example_float heater_running (Some (reading ''21.4''))
         (self_after (async_sensor_changed example_float devices_off (Some (reading ''20.6''))
            example_thermostat)))
        = [Call SERVICE_TURN_OFF ''switch.heater'', EnsureFuture fan_off]"
proof -
  have r: "async_control_heating h time force self = hysteresis h time a self"
    using assms by (intro control_heating_reaches)
  have 1: "async_control_heating h time force self =
      (case decide h time a self (fge t (fadd c (cold_tolerance self))) (fge c (fadd t (hot_tolerance self))) of
         Inl e \<Rightarrow> raises self [] e
       | Inr evs \<Rightarrow> returns self (evs @ neutral_devices self))"
    unfolding r using assms(3,4) by (rule hysteresis_decide)
  have 2: "hvac_mode self = Some HVAC_MODE_HEAT \<and> heater_entity_id self = Some e \<longrightarrow>
         (if is_device_active h self
          then Call SERVICE_TURN_OFF e \<in> set (events (async_control_heating h time force self))
                 \<longleftrightarrow> fge c (fadd t (hot_tolerance self))
          else Call SERVICE_TURN_ON e \<in> set (events (async_control_heating h time force self))
                 \<longleftrightarrow> fge t (fadd c (cold_tolerance self)))"
    unfolding r
    using heat_turn_on_iff [OF assms(3,4), of e h time a]
      heat_turn_off_iff [OF assms(3,4), of e h time a]
    by simp
  have 3: "events (async_sensor_changed example_float devices_off (Some (reading ''20.6''))
         example_thermostat)
        = [Call SERVICE_TURN_ON ''switch.heater'', EnsureFuture fan_on]"
    by (simp add: example_first_reading returns_def)
  have 4: "events (async_sensor_changed example_float heater_running (Some (reading ''21.4''))
         (self_after (async_sensor_changed example_float devices_off (Some (reading ''20.6''))
            example_thermostat)))
        = [Call SERVICE_TURN_OFF ''switch.heater'', EnsureFuture fan_off]"
    by (simp add: eval_defs)
  have 5: "hvac_mode self = Some HVAC_MODE_HEAT \<and> heater_entity_id self = Some e
        \<and> \<not> is_device_active h self \<and> t \<noteq> NaN \<and> fadd c (cold_tolerance self) = t \<longrightarrow>
         Call SERVICE_TURN_ON e \<in> set (events (async_control_heating h time force self))"
    using 2 fge_refl [of t] by auto
  show ?thesis by (rule conjI [OF 1 conjI [OF 2 conjI [OF 5 conjI [OF 3 4]]]])
qed

theorem hysteresis_thresholds_witness:
  "active (example_thermostat\<lparr>cur_temp := Some (Finite (41 / 2)), cold_tolerance := Finite (1 / 2), active := True\<rparr>)
   \<and> min_cycle_gate devices_off None False
        (example_thermostat\<lparr>cur_temp := Some (Finite (41 / 2)), cold_tolerance := Finite (1 / 2), active := True\<rparr>)
       = Inr (True, None)
   \<and> Call SERVICE_TURN_ON ''switch.heater'' \<in> set (events
        (async_control_heating devices_off None False
           (example_thermostat\<lparr>cur_temp := Some (Finite (41 / 2)), cold_tolerance := Finite (1 / 2), active := True\<rparr>)))
   \<and> Call SERVICE_TURN_ON ''switch.heater'' \<notin> set (events
        (async_control_heating devices_off None False
           (example_thermostat\<lparr>cur_temp := Some (tenths 206), cold_tolerance := Finite (1 / 2), active := True\<rparr>)))
   \<and> Call SERVICE_TURN_ON ''switch.heater'' \<notin> set (events
        (async_control_heating devices_off None False
           (example_thermostat\<lparr>cur_temp := Some (tenths 206), target_temp := Some (tenths 209),
              active := True\<rparr>)))"
proof -
  let ?r = "example_thermostat\<lparr>cur_temp := Some (tenths 206), target_temp := Some (tenths 209),
              active := True\<rparr>"
  have r: "active ?r" "hvac_mode ?r \<noteq> Some HVAC_MODE_OFF" "cur_temp ?r = Some (tenths 206)"
      "target_temp ?r = Some (tenths 209)"
      "min_cycle_gate devices_off None False ?r = Inr (True, None)"
    by (simp_all add: example_thermostat_def min_cycle_gate_def)
  have r': "hvac_mode ?r = Some HVAC_MODE_HEAT" "heater_entity_id ?r = Some ''switch.heater''"
      "cold_tolerance ?r = tenths 3" "\<not> is_device_active devices_off ?r"
    by (simp_all add: example_thermostat_def is_device_active_def devices_off_def if_set_def
        is_state_def switch_state_def)
  from hysteresis_thresholds [OF r, of "''switch.heater''", THEN conjunct2, THEN conjunct1] r'
  have 3: "Call SERVICE_TURN_ON ''switch.heater'' \<notin> set (events
        (async_control_heating devices_off None False ?r))" by (simp add: float_facts)
  let ?s = "example_thermostat\<lparr>cur_temp := Some (Finite (41 / 2)), cold_tolerance := Finite (1 / 2), active := True\<rparr>"
  let ?s' = "example_thermostat\<lparr>cur_temp := Some (tenths 206), cold_tolerance := Finite (1 / 2), active := True\<rparr>"
  have a: "active ?s" "hvac_mode ?s \<noteq> Some HVAC_MODE_OFF" "cur_temp ?s = Some (Finite (41 / 2))"
      "target_temp ?s = Some (Finite 21)" "min_cycle_gate devices_off None False ?s = Inr (True, None)"
    by (simp_all add: example_thermostat_def min_cycle_gate_def)
  have a': "active ?s'" "hvac_mode ?s' \<noteq> Some HVAC_MODE_OFF" "cur_temp ?s' = Some (tenths 206)"
      "target_temp ?s' = Some (Finite 21)" "min_cycle_gate devices_off None False ?s' = Inr (True, None)"
    by (simp_all add: example_thermostat_def min_cycle_gate_def)
  have b: "hvac_mode ?s = Some HVAC_MODE_HEAT" "heater_entity_id ?s = Some ''switch.heater''"
      "cold_tolerance ?s = Finite (1 / 2)" "\<not> is_device_active devices_off ?s"
      "hvac_mode ?s' = Some HVAC_MODE_HEAT" "heater_entity_id ?s' = Some ''switch.heater''"
      "cold_tolerance ?s' = Finite (1 / 2)" "\<not> is_device_active devices_off ?s'"
    by (simp_all add: example_thermostat_def is_device_active_def devices_off_def if_set_def
        is_state_def switch_state_def)
  from hysteresis_thresholds [OF a, of "''switch.heater''", THEN conjunct2, THEN conjunct1] b
  have 1: "Call SERVICE_TURN_ON ''switch.heater'' \<in> set (events
        (async_control_heating devices_off None False ?s))" by (simp add: float_facts)
  from hysteresis_thresholds [OF a', of "''switch.heater''", THEN conjunct2, THEN conjunct1] b
  have 2: "Call SERVICE_TURN_ON ''switch.heater'' \<notin> set (events
        (async_control_heating devices_off None False ?s'))" by (simp add: float_facts)
  from a(1,5) 1 2 3 show ?thesis by blast
qed

section \<open>The minimum cycle duration\<close>

lemma gate_blocks:
  assumes "min_cycle_duration self = Some d"
    and "(hvac_mode self, Some e) \<in> set
           [(Some HVAC_MODE_COOL, cooler_entity_id self), (Some HVAC_MODE_HEAT, heater_entity_id self),
            (Some HVAC_MODE_FAN_ONLY, fan_entity_id self), (Some HVAC_MODE_DRY, dryer_entity_id self)]"
    and "h e = Some es" and "since_changed es < d"
  shows "min_cycle_gate h None False self = Inr (False, Some (Some e))"
proof -
  have d: "d \<noteq> 0" using assms(4) by simp
  have c: "\<not> condition_state h (Some e) st d" for st
    using assms(3,4) by (simp add: condition_state_def)
  from assms(2) consider
      "hvac_mode self = Some HVAC_MODE_COOL" "cooler_entity_id self = Some e"
    | "hvac_mode self = Some HVAC_MODE_HEAT" "heater_entity_id self = Some e"
    | "hvac_mode self = Some HVAC_MODE_FAN_ONLY" "fan_entity_id self = Some e"
    | "hvac_mode self = Some HVAC_MODE_DRY" "dryer_entity_id self = Some e"
    by auto
  then show ?thesis
  proof cases
    case 1
    then show ?thesis using assms(1) d c by (simp add: min_cycle_gate_def Let_def)
  next
    case 2
    then show ?thesis using assms(1) d c by (simp add: min_cycle_gate_def Let_def)
  next
    case 3
    then show ?thesis using assms(1) d c by (simp add: min_cycle_gate_def Let_def)
  next
    case 4
    then show ?thesis using assms(1) d c by (simp add: min_cycle_gate_def Let_def)
  qed
qed

lemma is_device_active_min_cycle [simp]:
  "is_device_active h (self\<lparr>min_cycle_duration := x\<rparr>) = is_device_active h self"
  by (simp add: is_device_active_def)

lemma turn_min_cycle [simp]:
  "async_fan_turn_on (self\<lparr>min_cycle_duration := x\<rparr>) = async_fan_turn_on self"
  "async_fan_turn_off (self\<lparr>min_cycle_duration := x\<rparr>) = async_fan_turn_off self"
  "async_dryer_turn_on (self\<lparr>min_cycle_duration := x\<rparr>) = async_dryer_turn_on self"
  "async_dryer_turn_off (self\<lparr>min_cycle_duration := x\<rparr>) = async_dryer_turn_off self"
  "async_heater_turn_on (self\<lparr>min_cycle_duration := x\<rparr>) = async_heater_turn_on self"
  "async_heater_turn_off (self\<lparr>min_cycle_duration := x\<rparr>) = async_heater_turn_off self"
  by (simp_all add: async_heater_turn_on_def async_heater_turn_off_def
      async_fan_turn_on_def async_fan_turn_off_def
      async_dryer_turn_on_def async_dryer_turn_off_def)

lemma cooler_min_cycle [simp]:
  "async_cooler_turn_on (self\<lparr>min_cycle_duration := x\<rparr>) = async_cooler_turn_on self"
  "async_cooler_turn_off (self\<lparr>min_cycle_duration := x\<rparr>) = async_cooler_turn_off self"
  by (simp_all add: async_cooler_turn_on_def async_cooler_turn_off_def cong: option.case_cong)

lemma keep_alive_min_cycle [simp]:
  "keep_alive_turn_on (self\<lparr>min_cycle_duration := x\<rparr>) = keep_alive_turn_on self"
  "keep_alive_turn_off (self\<lparr>min_cycle_duration := x\<rparr>) = keep_alive_turn_off self"
  by (simp_all add: keep_alive_turn_on_def keep_alive_turn_off_def)

lemma decide_min_cycle [simp]:
  "decide h time a (self\<lparr>min_cycle_duration := x\<rparr>) tc th = decide h time a self tc th"
  by (simp add: decide_def cong: option.case_cong)

lemma neutral_min_cycle [simp]:
  "neutral_devices (self\<lparr>min_cycle_duration := x\<rparr>) = neutral_devices self"
  by (simp add: neutral_devices_def async_fan_turn_on_def async_dryer_turn_on_def)

lemma hysteresis_min_cycle:
  "events (hysteresis h time a (self\<lparr>min_cycle_duration := x\<rparr>)) = events (hysteresis h time a self)"
  "raised (hysteresis h time a (self\<lparr>min_cycle_duration := x\<rparr>)) = raised (hysteresis h time a self)"
  by (simp_all add: hysteresis_def returns_def raises_def Let_def split: option.splits sum.splits)

lemma activate_min_cycle:
  "activate (self\<lparr>min_cycle_duration := x\<rparr>) = (activate self)\<lparr>min_cycle_duration := x\<rparr>"
  by (simp add: activate_def)

lemma forced_bypasses_gate:
  "events (async_control_heating h None True self)
     = events (async_control_heating h None False (self\<lparr>min_cycle_duration := None\<rparr>))"
  "raised (async_control_heating h None True self)
     = raised (async_control_heating h None False (self\<lparr>min_cycle_duration := None\<rparr>))"
  by (simp_all add: async_control_heating_def activate_min_cycle min_cycle_gate_def Let_def
      hysteresis_min_cycle returns_def)

lemma forced_reaches:
  assumes "active self" and "hvac_mode self \<noteq> Some HVAC_MODE_OFF"
  shows "async_control_heating h None True self = hysteresis h None None self"
  using assms by (intro control_heating_reaches) (simp_all add: min_cycle_gate_def)

text \<open>
  Claim C4. Take an evaluation that is neither forced nor a keep-alive tick, with a
  minimum cycle duration \<open>d\<close> configured, in a mode whose device \<open>e\<close> has been in its
  present state for less than \<open>d\<close>. It issues nothing, raises nothing and at most marks the
  thermostat active. The same evaluation with \<^verbatim>\<open>force=True\<close> behaves as if no minimum
  cycle duration were configured: same events, same exception. In particular, for an active
  thermostat in \<^verbatim>\<open>heat\<close> or \<^verbatim>\<open>cool\<close> mode the forced evaluation calls the device on or
  off exactly as the two float comparisons of the hysteresis step demand.
\<close>

theorem min_cycle_gate_and_force:
  assumes "min_cycle_duration self = Some d"
    and "(hvac_mode self, Some e) \<in> set
           [(Some HVAC_MODE_COOL, cooler_entity_id self), (Some HVAC_MODE_HEAT, heater_entity_id self),
            (Some HVAC_MODE_FAN_ONLY, fan_entity_id self), (Some HVAC_MODE_DRY, dryer_entity_id self)]"
    and "h e = Some es" and "since_changed es < d"
  shows "async_control_heating h None False self = returns (activate self) []
    \<and> events (async_control_heating h None True self)
        = events (async_control_heating h None False (self\<lparr>min_cycle_duration := None\<rparr>))
    \<and> raised (async_control_heating h None True self)
        = raised (async_control_heating h None False (self\<lparr>min_cycle_duration := None\<rparr>))
    \<and> (active self \<and> cur_temp self = Some c \<and> target_temp self = Some t
        \<and> hvac_mode self = Some HVAC_MODE_HEAT \<longrightarrow>
         (if is_device_active h self
          then Call SERVICE_TURN_OFF e \<in> set (events (async_control_heating h None True self))
                 \<longleftrightarrow> fge c (fadd t (hot_tolerance self))
          else Call SERVICE_TURN_ON e \<in> set (events (async_control_heating h None True self))
                 \<longleftrightarrow> fge t (fadd c (cold_tolerance self))))
    \<and> (active self \<and> cur_temp self = Some c \<and> target_temp self = Some t
        \<and> hvac_mode self = Some HVAC_MODE_COOL \<longrightarrow>
         (if is_device_active h self
          then Call SERVICE_TURN_OFF e \<in> set (events (async_control_heating h None True self))
                 \<longleftrightarrow> fge t (fadd c (cold_tolerance self))
          else Call SERVICE_TURN_ON e \<in> set (events (async_control_heating h None True self))
                 \<longleftrightarrow> fge c (fadd t (hot_tolerance self))))"
proof -
  let ?s = "activate self"
  have g: "min_cycle_gate h None False ?s = Inr (False, Some (Some e))"
    using assms by (intro gate_blocks [where d = d and es = es]) (simp_all add: activate_def)
  have m: "hvac_mode self \<noteq> Some HVAC_MODE_OFF" using assms(2) by auto
  have 1: "async_control_heating h None False self = returns (activate self) []"
    using g m by (simp add: async_control_heating_def Let_def)
  have 4: "active self \<and> cur_temp self = Some c \<and> target_temp self = Some t
        \<and> hvac_mode self = Some HVAC_MODE_HEAT \<longrightarrow>
         (if is_device_active h self
          then Call SERVICE_TURN_OFF e \<in> set (events (async_control_heating h None True self))
                 \<longleftrightarrow> fge c (fadd t (hot_tolerance self))
          else Call SERVICE_TURN_ON e \<in> set (events (async_control_heating h None True self))
                 \<longleftrightarrow> fge t (fadd c (cold_tolerance self)))"
  proof (intro impI, elim conjE)
    assume a: "active self" "cur_temp self = Some c" "target_temp self = Some t"
      "hvac_mode self = Some HVAC_MODE_HEAT"
    with assms(2) have e: "heater_entity_id self = Some e" by simp
    show "if is_device_active h self
          then Call SERVICE_TURN_OFF e \<in> set (events (async_control_heating h None True self))
                 \<longleftrightarrow> fge c (fadd t (hot_tolerance self))
          else Call SERVICE_TURN_ON e \<in> set (events (async_control_heating h None True self))
                 \<longleftrightarrow> fge t (fadd c (cold_tolerance self))"
      unfolding forced_reaches [OF a(1) m]
      using heat_turn_on_iff [OF a(2,3,4) e, of h None None]
        heat_turn_off_iff [OF a(2,3,4) e, of h None None]
      by simp
  qed
  have 5: "active self \<and> cur_temp self = Some c \<and> target_temp self = Some t
        \<and> hvac_mode self = Some HVAC_MODE_COOL \<longrightarrow>
         (if is_device_active h self
          then Call SERVICE_TURN_OFF e \<in> set (events (async_control_heating h None True self))
                 \<longleftrightarrow> fge t (fadd c (cold_tolerance self))
          else Call SERVICE_TURN_ON e \<in> set (events (async_control_heating h None True self))
                 \<longleftrightarrow> fge c (fadd t (hot_tolerance self)))"
  proof (intro impI, elim conjE)
    assume a: "active self" "cur_temp self = Some c" "target_temp self = Some t"
      "hvac_mode self = Some HVAC_MODE_COOL"
    with assms(2) have e: "cooler_entity_id self = Some e" by simp
    show "if is_device_active h self
          then Call SERVICE_TURN_OFF e \<in> set (events (async_control_heating h None True self))
                 \<longleftrightarrow> fge t (fadd c (cold_tolerance self))
          else Call SERVICE_TURN_ON e \<in> set (events (async_control_heating h None True self))
                 \<longleftrightarrow> fge c (fadd t (hot_tolerance self))"
      unfolding forced_reaches [OF a(1) m]
      using cool_turn_on_iff [OF a(2,3,4) e, of h None None]
        cool_turn_off_iff [OF a(2,3,4) e, of h None None]
      by simp
  qed
  note b = forced_bypasses_gate [of h self]
  show ?thesis by (rule conjI [OF 1 conjI [OF b(1) conjI [OF b(2) conjI [OF 4 5]]]])
qed

theorem min_cycle_gate_and_force_witness:
  "min_cycle_duration
      (example_thermostat\<lparr>min_cycle_duration := Some 600, cur_temp := Some (tenths 206), active := True\<rparr>)
     = Some 600
   \<and> devices_off ''switch.heater'' = Some (switch_state ''off'' 120)
   \<and> since_changed (switch_state ''off'' 120) < 600
   \<and> async_control_heating devices_off None False
        (example_thermostat\<lparr>min_cycle_duration := Some 600, cur_temp := Some (tenths 206), active := True\<rparr>)
       = returns
          (example_thermostat\<lparr>min_cycle_duration := Some 600, cur_temp := Some (tenths 206), active := True\<rparr>)
          []
   \<and> Call SERVICE_TURN_ON ''switch.heater'' \<in> set (events
        (async_control_heating devices_off None True
          (example_thermostat\<lparr>min_cycle_duration := Some 600, cur_temp := Some (tenths 206),
             active := True\<rparr>)))"
proof -
  let ?s = "example_thermostat\<lparr>min_cycle_duration := Some 600, cur_temp := Some (tenths 206),
              active := True\<rparr>"
  have a: "min_cycle_duration ?s = Some 600"
    "(hvac_mode ?s, Some ''switch.heater'') \<in> set
           [(Some HVAC_MODE_COOL, cooler_entity_id ?s), (Some HVAC_MODE_HEAT, heater_entity_id ?s),
            (Some HVAC_MODE_FAN_ONLY, fan_entity_id ?s), (Some HVAC_MODE_DRY, dryer_entity_id ?s)]"
    "devices_off ''switch.heater'' = Some (switch_state ''off'' 120)"
    "since_changed (switch_state ''off'' 120) < 600"
    by (simp_all add: example_thermostat_def devices_off_def switch_state_def)
  have b: "active ?s" "cur_temp ?s = Some (tenths 206)" "target_temp ?s = Some (Finite 21)"
    "hvac_mode ?s = Some HVAC_MODE_HEAT" "cold_tolerance ?s = tenths 3"
    "\<not> is_device_active devices_off ?s" "activate ?s = ?s"
    by (simp_all add: example_thermostat_def is_device_active_def devices_off_def if_set_def
        is_state_def switch_state_def activate_def)
  note t = min_cycle_gate_and_force [where h = devices_off and self = ?s
      and e = "''switch.heater''" and d = 600 and es = "switch_state ''off'' 120"
      and c = "tenths 206" and t = "Finite 21", OF a]
  from t [THEN conjunct1] b(7)
  have 1: "async_control_heating devices_off None False ?s = returns ?s []" by simp
  from t [THEN conjunct2, THEN conjunct2, THEN conjunct2, THEN conjunct1] b
  have 2: "Call SERVICE_TURN_ON ''switch.heater'' \<in> set (events
        (async_control_heating devices_off None True ?s))" by (simp add: float_facts)
  from a(1,3,4) 1 2 show ?thesis by (intro conjI)
qed

section \<open>Sensor readings that are not numbers\<close>

lemma gate_error': "(case min_cycle_gate h time force self of Inl e \<Rightarrow> e = UnboundLocalError | Inr _ \<Rightarrow> True)"
  by (simp add: min_cycle_gate_def Let_def split: option.splits)

lemma decide_error': "(case decide h time a self tc th of Inl e \<Rightarrow> e = UnboundLocalError | Inr _ \<Rightarrow> True)"
  by (simp add: decide_def split: option.splits)

lemma gate_error: "min_cycle_gate h time force self = Inl e \<Longrightarrow> e = UnboundLocalError"
  using gate_error' [of h time force self] by simp

lemma decide_error: "decide h time a self tc th = Inl e \<Longrightarrow> e = UnboundLocalError"
  using decide_error' [of h time a self tc th] by simp

lemma hysteresis_error: "raised (hysteresis h time a self) \<noteq> Some ValueError"
  by (auto simp add: hysteresis_def raises_def returns_def Let_def
      split: option.splits sum.splits dest: decide_error)

lemma control_heating_error:
  "raised (async_control_heating h time force self) \<noteq> Some ValueError"
  by (auto simp add: async_control_heating_def raises_def returns_def Let_def hysteresis_error
      split: sum.splits prod.splits dest: gate_error)

text \<open>
  Claim C8, as amended. A sensor update without a state, or whose state is
  \<^verbatim>\<open>unavailable\<close> or \<^verbatim>\<open>unknown\<close>, is dropped: nothing changes and no evaluation runs.
  Any other reading on which \<^verbatim>\<open>float\<close> raises \<^verbatim>\<open>ValueError\<close> leaves the current
  temperature as it was and raises no \<^verbatim>\<open>ValueError\<close>, but the evaluation still runs:
  the update behaves exactly like an un-forced evaluation of the unchanged thermostat. A
  reading that \<^verbatim>\<open>float\<close> accepts becomes the current temperature and is evaluated,
  whatever float it is, not-a-number and the infinities included.
\<close>

theorem sensor_reading_rejected:
  "(py_float (state ns) = None \<longrightarrow>
      async_sensor_changed py_float h (Some ns) self =
        (if state ns = STATE_UNAVAILABLE \<or> state ns = STATE_UNKNOWN then returns self []
         else async_control_heating h None False self)
      \<and> cur_temp (self_after (async_sensor_changed py_float h (Some ns) self)) = cur_temp self
      \<and> raised (async_sensor_changed py_float h (Some ns) self) \<noteq> Some ValueError)
   \<and> (py_float (state ns) = Some v \<longrightarrow>
      async_sensor_changed py_float h (Some ns) self =
        (if state ns = STATE_UNAVAILABLE \<or> state ns = STATE_UNKNOWN then returns self []
         else async_control_heating h None False (self\<lparr>cur_temp := Some v\<rparr>)))
   \<and> async_sensor_changed py_float h None self = returns self []"
proof (intro conjI impI)
  assume a: "py_float (state ns) = None"
  show 1: "async_sensor_changed py_float h (Some ns) self =
      (if state ns = STATE_UNAVAILABLE \<or> state ns = STATE_UNKNOWN then returns self []
       else async_control_heating h None False self)"
    using a by (simp add: async_sensor_changed_def async_update_temp_def)
  show "cur_temp (self_after (async_sensor_changed py_float h (Some ns) self)) = cur_temp self"
    unfolding 1 by (simp add: control_heating_self_after returns_def)
  show "raised (async_sensor_changed py_float h (Some ns) self) \<noteq> Some ValueError"
    unfolding 1 by (simp add: control_heating_error returns_def)
next
  assume "py_float (state ns) = Some v"
  then show "async_sensor_changed py_float h (Some ns) self =
      (if state ns = STATE_UNAVAILABLE \<or> state ns = STATE_UNKNOWN then returns self []
       else async_control_heating h None False (self\<lparr>cur_temp := Some v\<rparr>))"
    by (simp add: async_sensor_changed_def async_update_temp_def)
next
  show "async_sensor_changed py_float h None self = returns self []"
    by (simp add: async_sensor_changed_def)
qed

theorem sensor_reading_rejected_witness:
  "example_float (state (reading ''abc'')) = None
   \<and> async_sensor_changed example_float devices_off (Some (reading ''abc''))
        (example_thermostat\<lparr>cur_temp := Some (Finite 20)\<rparr>)
      = async_control_heating devices_off None False
          (example_thermostat\<lparr>cur_temp := Some (Finite 20)\<rparr>)
   \<and> async_sensor_changed example_float devices_off (Some (reading STATE_UNAVAILABLE))
        (example_thermostat\<lparr>cur_temp := Some (Finite 20)\<rparr>)
      = returns (example_thermostat\<lparr>cur_temp := Some (Finite 20)\<rparr>) []
   \<and> example_float (state (reading ''nan'')) = Some NaN
   \<and> async_sensor_changed example_float devices_off (Some (reading ''nan''))
        (example_thermostat\<lparr>cur_temp := Some (Finite 20)\<rparr>)
      = async_control_heating devices_off None False
          (example_thermostat\<lparr>cur_temp := Some NaN\<rparr>)"
proof -
  let ?s = "example_thermostat\<lparr>cur_temp := Some (Finite 20)\<rparr>"
  have a: "example_float (state (reading ''abc'')) = None"
    and b: "example_float (state (reading STATE_UNAVAILABLE)) = None"
    and n: "example_float (state (reading ''nan'')) = Some NaN"
    by (simp_all add: example_float_def reading_def)
  have c: "state (reading ''abc'') \<noteq> STATE_UNAVAILABLE" "state (reading ''abc'') \<noteq> STATE_UNKNOWN"
    "state (reading STATE_UNAVAILABLE) = STATE_UNAVAILABLE"
    "state (reading ''nan'') \<noteq> STATE_UNAVAILABLE" "state (reading ''nan'') \<noteq> STATE_UNKNOWN"
    by (simp_all add: reading_def)
  from sensor_reading_rejected [where py_float = example_float and ns = "reading ''abc''"
      and h = devices_off and self = ?s, THEN conjunct1] a c(1,2)
  have 1: "async_sensor_changed example_float devices_off (Some (reading ''abc'')) ?s
      = async_control_heating devices_off None False ?s"
    by simp
  from sensor_reading_rejected [where py_float = example_float
      and ns = "reading STATE_UNAVAILABLE" and h = devices_off and self = ?s,
      THEN conjunct1] b c(3)
  have 2: "async_sensor_changed example_float devices_off (Some (reading STATE_UNAVAILABLE)) ?s
      = returns ?s []"
    by simp
  from sensor_reading_rejected [where py_float = example_float and ns = "reading ''nan''"
      and h = devices_off and self = ?s and v = NaN, THEN conjunct2, THEN conjunct1] n c(4,5)
  have 3: "async_sensor_changed example_float devices_off (Some (reading ''nan'')) ?s
      = async_control_heating devices_off None False (example_thermostat\<lparr>cur_temp := Some NaN\<rparr>)"
    by simp
  show ?thesis by (rule conjI [OF a conjI [OF 1 conjI [OF 2 conjI [OF n 3]]]])
qed

text \<open>
  The claim as it was stated fails twice. After start-up, with both temperatures known
  and the thermostat not yet active, the reading \<^verbatim>\<open>abc\<close> is rejected by \<^verbatim>\<open>float\<close>,
  and yet the evaluation runs, marks the thermostat active and turns the heater on. And the
  reading \<^verbatim>\<open>nan\<close>, which is not a number, is accepted by \<^verbatim>\<open>float\<close> and replaces
  the current temperature.
\<close>

theorem sensor_reading_rejected_counterexample:
  "example_float (state (reading ''abc'')) = None
   \<and> \<not> active (example_thermostat\<lparr>cur_temp := Some (Finite 20)\<rparr>)
   \<and> async_sensor_changed example_float devices_off (Some (reading ''abc''))
        (example_thermostat\<lparr>cur_temp := Some (Finite 20)\<rparr>)
      = returns (example_thermostat\<lparr>cur_temp := Some (Finite 20), active := True\<rparr>)
          [Call SERVICE_TURN_ON ''switch.heater'', EnsureFuture fan_on]
   \<and> example_float (state (reading ''nan'')) = Some NaN
   \<and> cur_temp (example_thermostat\<lparr>cur_temp := Some (Finite 20)\<rparr>) = Some (Finite 20)
   \<and> cur_temp (self_after (async_sensor_changed example_float devices_off
        (Some (reading ''nan'')) (example_thermostat\<lparr>cur_temp := Some (Finite 20)\<rparr>)))
      = Some NaN"
proof -
  have 1: "example_float (state (reading ''abc'')) = None
   \<and> \<not> active (example_thermostat\<lparr>cur_temp := Some (Finite 20)\<rparr>)
   \<and> async_sensor_changed example_float devices_off (Some (reading ''abc''))
        (example_thermostat\<lparr>cur_temp := Some (Finite 20)\<rparr>)
      = returns (example_thermostat\<lparr>cur_temp := Some (Finite 20), active := True\<rparr>)
          [Call SERVICE_TURN_ON ''switch.heater'', EnsureFuture fan_on]"
    by (simp add: eval_defs)
  have 2: "example_float (state (reading ''nan'')) = Some NaN
   \<and> cur_temp (example_thermostat\<lparr>cur_temp := Some (Finite 20)\<rparr>) = Some (Finite 20)
   \<and> cur_temp (self_after (async_sensor_changed example_float devices_off
        (Some (reading ''nan'')) (example_thermostat\<lparr>cur_temp := Some (Finite 20)\<rparr>)))
      = Some NaN"
    by (simp add: async_sensor_changed_def async_update_temp_def control_heating_self_after
        reading_def example_float_def)
  from 1 2 show ?thesis by blast
qed

section \<open>Keep-alive ticks\<close>

lemma keep_alive_gate: "time \<noteq> None \<Longrightarrow> min_cycle_gate h time force self = Inr (True, None)"
  by (cases time) (simp_all add: min_cycle_gate_def)

lemma decide_keep_alive:
  assumes "time \<noteq> None"
    and "hvac_mode self = Some HVAC_MODE_HEAT \<and> \<not> (if is_device_active h self then th else tc)
         \<or> hvac_mode self = Some HVAC_MODE_COOL \<and> \<not> (if is_device_active h self then tc else th)"
  shows "decide h time None self tc th = Inl UnboundLocalError"
proof (cases time)
  case None
  with assms(1) show ?thesis by simp
next
  case (Some n)
  from assms(2) show ?thesis
  proof
    assume "hvac_mode self = Some HVAC_MODE_HEAT \<and> \<not> (if is_device_active h self then th else tc)"
    then show ?thesis using Some by (cases "is_device_active h self") (simp_all add: decide_def)
  next
    assume "hvac_mode self = Some HVAC_MODE_COOL \<and> \<not> (if is_device_active h self then tc else th)"
    then show ?thesis using Some by (cases "is_device_active h self") (simp_all add: decide_def)
  qed
qed

lemma keep_alive_always_fails:
  assumes "time \<noteq> None" and "active self" and "cur_temp self = Some c" and "target_temp self = Some t"
    and "hvac_mode self = Some HVAC_MODE_HEAT
           \<and> \<not> (if is_device_active h self then fge c (fadd t (hot_tolerance self))
                 else fge t (fadd c (cold_tolerance self)))
         \<or> hvac_mode self = Some HVAC_MODE_COOL
           \<and> \<not> (if is_device_active h self then fge t (fadd c (cold_tolerance self))
                 else fge c (fadd t (hot_tolerance self)))"
  shows "async_control_heating h time force self = raises self [] UnboundLocalError"
proof -
  have m: "hvac_mode self \<noteq> Some HVAC_MODE_OFF" using assms(5) by auto
  have "decide h time None self (fge t (fadd c (cold_tolerance self))) (fge c (fadd t (hot_tolerance self)))
          = Inl UnboundLocalError"
    using assms(1,5) by (rule decide_keep_alive)
  then have "hysteresis h time None self = raises self [] UnboundLocalError"
    by (simp add: hysteresis_decide [OF assms(3,4)])
  then show ?thesis
    using control_heating_reaches [OF assms(2) m keep_alive_gate [OF assms(1)]] by simp
qed

text \<open>
  Claim C2 does not hold of the code. On a keep-alive tick in \<^verbatim>\<open>heat\<close> mode, with the
  heater running and the room neither too hot nor too cold, the evaluation reaches the
  keep-alive branch, reads the local variable \<^verbatim>\<open>active_entity\<close>, which no keep-alive
  evaluation ever assigns, and ends with \<^verbatim>\<open>UnboundLocalError\<close> before it issues
  anything.
\<close>

theorem keep_alive_unbound_local:
  "async_control_heating heater_running (Some 0) False
     (example_thermostat\<lparr>cur_temp := Some (Finite 21), active := True\<rparr>)
   = raises (example_thermostat\<lparr>cur_temp := Some (Finite 21), active := True\<rparr>) [] UnboundLocalError"
  by (simp add: eval_defs)

section \<open>The default target temperature\<close>

lemma default_target_always_min:
  assumes "target_temp self = None"
  shows "target_temp (async_added_to_hass lo hi None self) = Some (min_temp lo self)"
  using assms
  by (simp add: async_added_to_hass_def min_temp_def max_temp_def truthy_def Let_def)

lemma default_target_old_state:
  assumes "target_temp self = None" and "attr_temperature old = None"
  shows "target_temp (async_added_to_hass lo hi (Some old) self)
     = (if hvac_mode self = Some HVAC_MODE_DRY then raw_min_temp self
        else Some (min_temp lo self))"
  using assms
  by (simp add: async_added_to_hass_def min_temp_def max_temp_def truthy_def Let_def)

text \<open>
  Claim C3 does not hold of the code. With no target temperature configured and no state to
  restore, a thermostat in \<^verbatim>\<open>cool\<close> mode whose limits are 7 and 35 starts with the
  target 7, the minimum: the assignment of the maximum is overwritten by the
  \<^verbatim>\<open>else\<close> branch of the last \<^verbatim>\<open>if\<close>.
\<close>

theorem default_target_cool:
  "target_temp (async_added_to_hass (Finite 7) (Finite 35) None
      (example_thermostat\<lparr>hvac_mode := Some HVAC_MODE_COOL, target_temp := None\<rparr>)) = Some (Finite 7)
   \<and> max_temp (Finite 35) (example_thermostat\<lparr>hvac_mode := Some HVAC_MODE_COOL, target_temp := None\<rparr>) = Finite 35"
  by (simp add: async_added_to_hass_def example_thermostat_def min_temp_def max_temp_def
      truthy_def Let_def)


end
